theory Spec2Isabelle
  imports Main
begin

section \<open>Common notions of the execution substrate\<close>

text \<open>
  The three contracts (\<open>NFT\<close>, \<open>NFTMultiEdition\<close>, \<open>Marketplace\<close>) are Solidity
  \<open>^0.8.20\<close> sources. A transaction either commits or reverts; a reverted call leaves no
  trace in storage, so every operation is a function from the state before the call to
  either an error or the state after it. Unsigned 256-bit integers are natural numbers
  and every arithmetic operation of the source is checked: a result outside
  \<open>0 .. 2^256 - 1\<close> is the panic the compiler inserts. Addresses are natural numbers,
  \<open>0\<close> being \<open>address(0)\<close>. A storage mapping is a total function whose
  unwritten slots hold the zero value of the value type.

  Each operation is modelled as a top-level call. The \<open>nonReentrant\<close> guard of the
  sources is open whenever a top-level call starts and is closed again when it ends, so
  it has no field in the states below; code run by a callee during an external call is
  represented by the answer the callee gives.
\<close>

type_synonym address = nat

definition null_address :: address where
  "null_address = 0"

definition MAX_UINT256 :: nat where
  "MAX_UINT256 = 2 ^ 256 - 1"

datatype error =
    Revert string
  | Panic
  | AccessControlUnauthorizedAccount
  | AccessControlBadConfirmation
  | OwnableUnauthorizedAccount
  | OwnableInvalidOwner
  | EnforcedPause
  | ExpectedPause
  | ERC2981InvalidTokenRoyalty
  | ERC2981InvalidTokenRoyaltyReceiver
  | ERC721NonexistentToken
  | ERC721InvalidReceiver
  | ERC721InvalidSender
  | ERC721IncorrectOwner
  | ERC721InsufficientApproval
  | ERC721InvalidApprover
  | ERC721InvalidOperator
  | ERC1155InvalidReceiver
  | ExternalCallFailed
  | InsufficientFunds

definition bindE :: "error + 'a \<Rightarrow> ('a \<Rightarrow> error + 'b) \<Rightarrow> error + 'b" where
  "bindE m f = (case m of Inl e \<Rightarrow> Inl e | Inr x \<Rightarrow> f x)"

definition checked_add :: "nat \<Rightarrow> nat \<Rightarrow> error + nat" where
  "checked_add a b = (if a + b \<le> MAX_UINT256 then Inr (a + b) else Inl Panic)"

definition checked_sub :: "nat \<Rightarrow> nat \<Rightarrow> error + nat" where
  "checked_sub a b = (if b \<le> a then Inr (a - b) else Inl Panic)"

definition checked_mul :: "nat \<Rightarrow> nat \<Rightarrow> error + nat" where
  "checked_mul a b = (if a * b \<le> MAX_UINT256 then Inr (a * b) else Inl Panic)"

text \<open>The names the specification gives to the failures of the sources.\<close>

definition InvalidCreator :: error where
  "InvalidCreator = Revert ''Creator cannot be zero address''"

definition InvalidURI :: error where
  "InvalidURI = Revert ''URI cannot be empty''"




definition SupplyExceeded_createAndMint :: error where
  "SupplyExceeded_createAndMint = Revert ''Amount exceeds max supply''"

definition Unauthorized :: error where
  "Unauthorized = Revert ''Only creator or admin can set royalty''"

definition InvalidRate :: error where
  "InvalidRate = Revert ''Royalty cannot exceed 10%''"

definition TokenNotFound :: error where
  "TokenNotFound = Revert ''Token does not exist''"

datatype role = DEFAULT_ADMIN_ROLE | MINTER_ROLE

section \<open>Royalty registry\<close>

text \<open>
  Modelled from the spec: the royalty registry both token contracts inherit (the imported
  \<open>ERC2981\<close> base, whose text is not among the sources). Section 4.1 gives
  \<open>royaltyInfo (id, salePrice) = (receiver, floor (salePrice * rateBps / 10000))\<close>; the
  internal setter stores receiver and rate for one identifier and refuses a rate above
  the denominator \<open>10000\<close> and the null receiver. Neither contract ever sets the base's
  global default entry, so an identifier without an entry answers with the zero entry.
\<close>

record RoyaltyInfo =
  ri_receiver :: address
  ri_royaltyFraction :: nat

definition zero_RoyaltyInfo :: RoyaltyInfo where
  "zero_RoyaltyInfo = \<lparr>ri_receiver = null_address, ri_royaltyFraction = 0\<rparr>"

definition feeDenominator :: nat where
  "feeDenominator = 10000"

definition setTokenRoyalty_internal ::
  "nat \<Rightarrow> address \<Rightarrow> nat \<Rightarrow> (nat \<Rightarrow> RoyaltyInfo) \<Rightarrow> error + (nat \<Rightarrow> RoyaltyInfo)" where
  "setTokenRoyalty_internal tokenId receiver feeNumerator reg =
     (if feeNumerator > feeDenominator then Inl ERC2981InvalidTokenRoyalty
      else if receiver = null_address then Inl ERC2981InvalidTokenRoyaltyReceiver
      else Inr (reg(tokenId := \<lparr>ri_receiver = receiver, ri_royaltyFraction = feeNumerator\<rparr>)))"

definition royaltyInfo :: "(nat \<Rightarrow> RoyaltyInfo) \<Rightarrow> nat \<Rightarrow> nat \<Rightarrow> error + (address \<times> nat)" where
  "royaltyInfo reg tokenId salePrice =
     (let entry = (if ri_receiver (reg tokenId) = null_address then zero_RoyaltyInfo
                   else reg tokenId)
      in bindE (checked_mul salePrice (ri_royaltyFraction entry))
           (\<lambda>p. Inr (ri_receiver entry, p div feeDenominator)))"

section \<open>Multi-edition ledger (contract NFTMultiEdition)\<close>

record TokenType =
  tt_creator :: address
  tt_uri :: string
  tt_maxSupply :: nat
  tt_mintedSupply :: nat

record multi_state =
  me_nextTokenTypeId :: nat
  me_tokenTypes :: "nat \<Rightarrow> TokenType"
  me_defaultRoyaltyBps :: nat
  me_royalty :: "nat \<Rightarrow> RoyaltyInfo"
  me_balances :: "nat \<Rightarrow> address \<Rightarrow> nat"
  me_totalSupply :: "nat \<Rightarrow> nat"
  me_totalSupplyAll :: nat
  me_roles :: "role \<Rightarrow> address \<Rightarrow> bool"

definition zero_TokenType :: TokenType where
  "zero_TokenType = \<lparr>tt_creator = null_address, tt_uri = [], tt_maxSupply = 0, tt_mintedSupply = 0\<rparr>"

text \<open>The constructor: both roles go to the deployer; a zero argument keeps the default 500.\<close>

definition constructor_NFTMultiEdition :: "address \<Rightarrow> nat \<Rightarrow> multi_state" where
  "constructor_NFTMultiEdition deployer defaultBps =
     \<lparr>me_nextTokenTypeId = 0,
      me_tokenTypes = (\<lambda>_. zero_TokenType),
      me_defaultRoyaltyBps = (if defaultBps > 0 then defaultBps else 500),
      me_royalty = (\<lambda>_. zero_RoyaltyInfo),
      me_balances = (\<lambda>_ _. 0),
      me_totalSupply = (\<lambda>_. 0),
      me_totalSupplyAll = 0,
      me_roles = (\<lambda>r a. a = deployer)\<rparr>"

text \<open>
  Modelled from the spec: the inherited unit mint (the imported \<open>ERC1155\<close> base with its
  supply extension, whose text is not among the sources). Section 4.2 says a mint
  increments the holder balance; the base refuses the null recipient, counts the units in
  circulation per identifier and in total with checked additions, and lets a recipient
  that is a contract refuse the units. \<open>accepts\<close> is the recipient's answer (an
  externally owned account always accepts).
\<close>

definition erc1155_mint ::
  "(address \<Rightarrow> bool) \<Rightarrow> address \<Rightarrow> nat \<Rightarrow> nat \<Rightarrow> multi_state \<Rightarrow> error + multi_state" where
  "erc1155_mint accepts to tid amount s =
     (if to = null_address then Inl ERC1155InvalidReceiver
      else bindE (checked_add (me_balances s tid to) amount) (\<lambda>b.
           bindE (checked_add (me_totalSupply s tid) amount) (\<lambda>t.
           bindE (checked_add (me_totalSupplyAll s) amount) (\<lambda>ta.
             if \<not> accepts to then Inl ERC1155InvalidReceiver
             else Inr (s\<lparr>me_balances := (me_balances s)(tid := (me_balances s tid)(to := b)),
                        me_totalSupply := (me_totalSupply s)(tid := t),
                        me_totalSupplyAll := ta\<rparr>)))))"

definition createEdition ::
  "address \<Rightarrow> address \<Rightarrow> string \<Rightarrow> nat \<Rightarrow> multi_state \<Rightarrow> error + (nat \<times> multi_state)" where
  "createEdition sender creator tokenUri maxSupply s =
     (if \<not> me_roles s MINTER_ROLE sender then Inl AccessControlUnauthorizedAccount
      else if \<not> creator \<noteq> null_address then Inl (Revert ''Creator cannot be zero address'')
      else if \<not> length tokenUri > 0 then Inl (Revert ''URI cannot be empty'')
      else bindE (checked_add (me_nextTokenTypeId s) 1) (\<lambda>next.
        let tokenTypeId = me_nextTokenTypeId s;
            s1 = s\<lparr>me_nextTokenTypeId := next,
                   me_tokenTypes := (me_tokenTypes s)(tokenTypeId :=
                     \<lparr>tt_creator = creator, tt_uri = tokenUri,
                      tt_maxSupply = maxSupply, tt_mintedSupply = 0\<rparr>)\<rparr>
        in bindE (setTokenRoyalty_internal tokenTypeId creator (me_defaultRoyaltyBps s1) (me_royalty s1))
             (\<lambda>reg. Inr (tokenTypeId, s1\<lparr>me_royalty := reg\<rparr>))))"

definition mintEdition ::
  "(address \<Rightarrow> bool) \<Rightarrow> address \<Rightarrow> address \<Rightarrow> nat \<Rightarrow> nat \<Rightarrow> multi_state \<Rightarrow> error + multi_state" where
  "mintEdition accepts sender to tokenTypeId amount s =
     (if \<not> me_roles s MINTER_ROLE sender then Inl AccessControlUnauthorizedAccount
      else if \<not> amount > 0 then Inl (Revert ''Amount must be greater than 0'')
      else if \<not> tt_creator (me_tokenTypes s tokenTypeId) \<noteq> null_address
        then Inl (Revert ''Token type does not exist'')
      else
        let tokenType = me_tokenTypes s tokenTypeId in
        bindE (if tt_maxSupply tokenType > 0
               then bindE (checked_add (tt_mintedSupply tokenType) amount) (\<lambda>total.
                      if \<not> total \<le> tt_maxSupply tokenType then Inl (Revert ''Exceeds max supply'')
                      else Inr ())
               else Inr ()) (\<lambda>_.
        bindE (checked_add (tt_mintedSupply tokenType) amount) (\<lambda>minted.
          erc1155_mint accepts to tokenTypeId amount
            (s\<lparr>me_tokenTypes := (me_tokenTypes s)(tokenTypeId :=
                 tokenType\<lparr>tt_mintedSupply := minted\<rparr>)\<rparr>))))"

definition createAndMint ::
  "(address \<Rightarrow> bool) \<Rightarrow> address \<Rightarrow> address \<Rightarrow> address \<Rightarrow> string \<Rightarrow> nat \<Rightarrow> nat \<Rightarrow> multi_state
     \<Rightarrow> error + (nat \<times> multi_state)" where
  "createAndMint accepts sender to creator tokenUri maxSupply amount s =
     (if \<not> me_roles s MINTER_ROLE sender then Inl AccessControlUnauthorizedAccount
      else if \<not> amount > 0 then Inl (Revert ''Amount must be greater than 0'')
      else if \<not> (maxSupply = 0 \<or> amount \<le> maxSupply) then Inl (Revert ''Amount exceeds max supply'')
      else bindE (checked_add (me_nextTokenTypeId s) 1) (\<lambda>next.
        let tokenTypeId = me_nextTokenTypeId s;
            s1 = s\<lparr>me_nextTokenTypeId := next,
                   me_tokenTypes := (me_tokenTypes s)(tokenTypeId :=
                     \<lparr>tt_creator = creator, tt_uri = tokenUri,
                      tt_maxSupply = maxSupply, tt_mintedSupply = amount\<rparr>)\<rparr>
        in bindE (setTokenRoyalty_internal tokenTypeId creator (me_defaultRoyaltyBps s1) (me_royalty s1))
             (\<lambda>reg. bindE (erc1155_mint accepts to tokenTypeId amount (s1\<lparr>me_royalty := reg\<rparr>))
                (\<lambda>s2. Inr (tokenTypeId, s2)))))"

text \<open>\<open>setTokenRoyalty\<close> of the multi-edition contract: existence, then authority, then rate.\<close>

definition me_setTokenRoyalty ::
  "address \<Rightarrow> nat \<Rightarrow> address \<Rightarrow> nat \<Rightarrow> multi_state \<Rightarrow> error + multi_state" where
  "me_setTokenRoyalty sender tokenTypeId receiver royaltyBps s =
     (if \<not> tt_creator (me_tokenTypes s tokenTypeId) \<noteq> null_address
        then Inl (Revert ''Token type does not exist'')
      else if \<not> (tt_creator (me_tokenTypes s tokenTypeId) = sender
                 \<or> me_roles s DEFAULT_ADMIN_ROLE sender)
        then Inl (Revert ''Only creator or admin can set royalty'')
      else if \<not> royaltyBps \<le> 1000 then Inl (Revert ''Royalty cannot exceed 10%'')
      else bindE (setTokenRoyalty_internal tokenTypeId receiver royaltyBps (me_royalty s))
             (\<lambda>reg. Inr (s\<lparr>me_royalty := reg\<rparr>)))"

definition tokenTypeExists :: "multi_state \<Rightarrow> nat \<Rightarrow> bool" where
  "tokenTypeExists s tokenTypeId \<longleftrightarrow> tt_creator (me_tokenTypes s tokenTypeId) \<noteq> null_address"


definition totalTokenTypes :: "multi_state \<Rightarrow> nat" where
  "totalTokenTypes s = me_nextTokenTypeId s"


text \<open>
  One call of the multi-edition contract, and a transaction: the state the call commits,
  or the state before it when the call reverts.
\<close>

datatype multi_call =
    CreateEdition address string nat
  | MintEdition address nat nat
  | CreateAndMint address address string nat nat
  | SetTypeRoyalty nat address nat

fun multi_exec ::
  "(address \<Rightarrow> bool) \<Rightarrow> address \<Rightarrow> multi_call \<Rightarrow> multi_state \<Rightarrow> error + multi_state" where
  "multi_exec accepts sender (CreateEdition creator tokenUri maxSupply) s =
     bindE (createEdition sender creator tokenUri maxSupply s) (\<lambda>(_, s'). Inr s')"
| "multi_exec accepts sender (MintEdition to tokenTypeId amount) s =
     mintEdition accepts sender to tokenTypeId amount s"
| "multi_exec accepts sender (CreateAndMint to creator tokenUri maxSupply amount) s =
     bindE (createAndMint accepts sender to creator tokenUri maxSupply amount s) (\<lambda>(_, s'). Inr s')"
| "multi_exec accepts sender (SetTypeRoyalty tokenTypeId receiver royaltyBps) s =
     me_setTokenRoyalty sender tokenTypeId receiver royaltyBps s"

definition commit :: "'s \<Rightarrow> error + 's \<Rightarrow> 's" where
  "commit s r = (case r of Inl _ \<Rightarrow> s | Inr s' \<Rightarrow> s')"

section \<open>Single-edition ledger (contract NFT)\<close>

record nft_state =
  nft_nextTokenId :: nat
  nft_creators :: "nat \<Rightarrow> address"
  nft_defaultRoyaltyBps :: nat
  nft_owners :: "nat \<Rightarrow> address"
  nft_balances :: "address \<Rightarrow> nat"
  nft_tokenApprovals :: "nat \<Rightarrow> address"
  nft_operatorApprovals :: "address \<Rightarrow> address \<Rightarrow> bool"
  nft_tokenURIs :: "nat \<Rightarrow> string"
  nft_royalty :: "nat \<Rightarrow> RoyaltyInfo"
  nft_roles :: "role \<Rightarrow> address \<Rightarrow> bool"

definition constructor_NFT :: "address \<Rightarrow> nat \<Rightarrow> nft_state" where
  "constructor_NFT deployer defaultBps =
     \<lparr>nft_nextTokenId = 0,
      nft_creators = (\<lambda>_. null_address),
      nft_defaultRoyaltyBps = (if defaultBps > 0 then defaultBps else 500),
      nft_owners = (\<lambda>_. null_address),
      nft_balances = (\<lambda>_. 0),
      nft_tokenApprovals = (\<lambda>_. null_address),
      nft_operatorApprovals = (\<lambda>_ _. False),
      nft_tokenURIs = (\<lambda>_. []),
      nft_royalty = (\<lambda>_. zero_RoyaltyInfo),
      nft_roles = (\<lambda>r a. a = deployer)\<rparr>"

text \<open>
  Modelled from the spec: the ownership base the contract inherits (the imported
  \<open>ERC721\<close> base and its burn extension, whose text is not among the sources).
  Sections 3, 4.2 and 6 give its behaviour: exactly one owner per existing identifier;
  \<open>ownerOf\<close> fails for an absent identifier; a transfer or burn needs the caller to be
  the owner, the approved address of the identifier or an operator approved for all of
  the owner's tokens; a burn removes ownership for good; a safe transfer or safe mint to
  a recipient that is a contract needs the recipient's acknowledgement (\<open>accepts\<close>).
\<close>

definition ownerOf_internal :: "nft_state \<Rightarrow> nat \<Rightarrow> address" where
  "ownerOf_internal s tokenId = nft_owners s tokenId"

definition ownerOf :: "nft_state \<Rightarrow> nat \<Rightarrow> error + address" where
  "ownerOf s tokenId =
     (if ownerOf_internal s tokenId = null_address then Inl ERC721NonexistentToken
      else Inr (ownerOf_internal s tokenId))"

definition isApprovedForAll :: "nft_state \<Rightarrow> address \<Rightarrow> address \<Rightarrow> bool" where
  "isApprovedForAll s holder operator = nft_operatorApprovals s holder operator"

definition getApproved :: "nft_state \<Rightarrow> nat \<Rightarrow> error + address" where
  "getApproved s tokenId =
     (if ownerOf_internal s tokenId = null_address then Inl ERC721NonexistentToken
      else Inr (nft_tokenApprovals s tokenId))"

definition isAuthorized :: "nft_state \<Rightarrow> address \<Rightarrow> address \<Rightarrow> nat \<Rightarrow> bool" where
  "isAuthorized s holder spender tokenId \<longleftrightarrow>
     spender \<noteq> null_address \<and>
     (holder = spender \<or> isApprovedForAll s holder spender \<or> nft_tokenApprovals s tokenId = spender)"

definition erc721_update :: "address \<Rightarrow> nat \<Rightarrow> address \<Rightarrow> nft_state \<Rightarrow> error + (address \<times> nft_state)" where
  "erc721_update to tokenId auth s =
     (let from = ownerOf_internal s tokenId in
      if auth \<noteq> null_address \<and> \<not> isAuthorized s from auth tokenId
        then (if from = null_address then Inl ERC721NonexistentToken
              else Inl ERC721InsufficientApproval)
      else
        let s1 = (if from \<noteq> null_address
                  then s\<lparr>nft_tokenApprovals := (nft_tokenApprovals s)(tokenId := null_address),
                         nft_balances := (nft_balances s)(from := nft_balances s from - 1)\<rparr>
                  else s);
            s2 = (if to \<noteq> null_address
                  then s1\<lparr>nft_balances := (nft_balances s1)(to := nft_balances s1 to + 1)\<rparr>
                  else s1)
        in Inr (from, s2\<lparr>nft_owners := (nft_owners s2)(tokenId := to)\<rparr>))"

definition safeMint :: "(address \<Rightarrow> bool) \<Rightarrow> address \<Rightarrow> nat \<Rightarrow> nft_state \<Rightarrow> error + nft_state" where
  "safeMint accepts to tokenId s =
     (if to = null_address then Inl ERC721InvalidReceiver
      else bindE (erc721_update to tokenId null_address s) (\<lambda>(previousOwner, s').
        if previousOwner \<noteq> null_address then Inl ERC721InvalidSender
        else if \<not> accepts to then Inl ERC721InvalidReceiver
        else Inr s'))"

definition burn :: "address \<Rightarrow> nat \<Rightarrow> nft_state \<Rightarrow> error + nft_state" where
  "burn sender tokenId s =
     bindE (erc721_update null_address tokenId sender s) (\<lambda>(_, s'). Inr s')"

definition safeTransferFrom ::
  "(address \<Rightarrow> bool) \<Rightarrow> address \<Rightarrow> address \<Rightarrow> address \<Rightarrow> nat \<Rightarrow> nft_state \<Rightarrow> error + nft_state" where
  "safeTransferFrom accepts sender from to tokenId s =
     (if to = null_address then Inl ERC721InvalidReceiver
      else bindE (erc721_update to tokenId sender s) (\<lambda>(previousOwner, s').
        if previousOwner \<noteq> from then Inl ERC721IncorrectOwner
        else if \<not> accepts to then Inl ERC721InvalidReceiver
        else Inr s'))"

definition approve :: "address \<Rightarrow> address \<Rightarrow> nat \<Rightarrow> nft_state \<Rightarrow> error + nft_state" where
  "approve sender to tokenId s =
     bindE (ownerOf s tokenId) (\<lambda>holder.
       if sender \<noteq> null_address \<and> holder \<noteq> sender \<and> \<not> isApprovedForAll s holder sender
         then Inl ERC721InvalidApprover
       else Inr (s\<lparr>nft_tokenApprovals := (nft_tokenApprovals s)(tokenId := to)\<rparr>))"

definition setApprovalForAll :: "address \<Rightarrow> address \<Rightarrow> bool \<Rightarrow> nft_state \<Rightarrow> error + nft_state" where
  "setApprovalForAll sender operator approved s =
     (if operator = null_address then Inl ERC721InvalidOperator
      else Inr (s\<lparr>nft_operatorApprovals :=
                   (nft_operatorApprovals s)(sender := (nft_operatorApprovals s sender)(operator := approved))\<rparr>))"

text \<open>
  Modelled from the spec: role administration (the imported access-control base, whose
  text is not among the sources): section 9 asks for a role-membership set checked at the
  start of each privileged operation; an administrator grants and revokes roles, and an
  account may give up its own role.
\<close>

definition grantRole :: "address \<Rightarrow> role \<Rightarrow> address \<Rightarrow> nft_state \<Rightarrow> error + nft_state" where
  "grantRole sender r account s =
     (if \<not> nft_roles s DEFAULT_ADMIN_ROLE sender then Inl AccessControlUnauthorizedAccount
      else Inr (s\<lparr>nft_roles := (nft_roles s)(r := (nft_roles s r)(account := True))\<rparr>))"

definition revokeRole :: "address \<Rightarrow> role \<Rightarrow> address \<Rightarrow> nft_state \<Rightarrow> error + nft_state" where
  "revokeRole sender r account s =
     (if \<not> nft_roles s DEFAULT_ADMIN_ROLE sender then Inl AccessControlUnauthorizedAccount
      else Inr (s\<lparr>nft_roles := (nft_roles s)(r := (nft_roles s r)(account := False))\<rparr>))"

definition renounceRole :: "address \<Rightarrow> role \<Rightarrow> address \<Rightarrow> nft_state \<Rightarrow> error + nft_state" where
  "renounceRole sender r callerConfirmation s =
     (if callerConfirmation \<noteq> sender then Inl AccessControlBadConfirmation
      else Inr (s\<lparr>nft_roles := (nft_roles s)(r := (nft_roles s r)(sender := False))\<rparr>))"

text \<open>The functions the contract itself declares.\<close>

definition mint :: "(address \<Rightarrow> bool) \<Rightarrow> address \<Rightarrow> address \<Rightarrow> string \<Rightarrow> nft_state \<Rightarrow> error + (nat \<times> nft_state)" where
  "mint accepts sender to tokenUri s =
     (if \<not> nft_roles s MINTER_ROLE sender then Inl AccessControlUnauthorizedAccount
      else bindE (checked_add (nft_nextTokenId s) 1) (\<lambda>next.
        let tokenId = nft_nextTokenId s in
        bindE (safeMint accepts to tokenId (s\<lparr>nft_nextTokenId := next\<rparr>)) (\<lambda>s1.
          let s2 = s1\<lparr>nft_tokenURIs := (nft_tokenURIs s1)(tokenId := tokenUri),
                      nft_creators := (nft_creators s1)(tokenId := to)\<rparr>
          in bindE (setTokenRoyalty_internal tokenId to (nft_defaultRoyaltyBps s2) (nft_royalty s2))
               (\<lambda>reg. Inr (tokenId, s2\<lparr>nft_royalty := reg\<rparr>)))))"

definition mintFor ::
  "(address \<Rightarrow> bool) \<Rightarrow> address \<Rightarrow> address \<Rightarrow> address \<Rightarrow> string \<Rightarrow> nft_state \<Rightarrow> error + (nat \<times> nft_state)" where
  "mintFor accepts sender to creator tokenUri s =
     (if \<not> nft_roles s MINTER_ROLE sender then Inl AccessControlUnauthorizedAccount
      else if \<not> creator \<noteq> null_address then Inl (Revert ''Creator cannot be zero address'')
      else bindE (checked_add (nft_nextTokenId s) 1) (\<lambda>next.
        let tokenId = nft_nextTokenId s in
        bindE (safeMint accepts to tokenId (s\<lparr>nft_nextTokenId := next\<rparr>)) (\<lambda>s1.
          let s2 = s1\<lparr>nft_tokenURIs := (nft_tokenURIs s1)(tokenId := tokenUri),
                      nft_creators := (nft_creators s1)(tokenId := creator)\<rparr>
          in bindE (setTokenRoyalty_internal tokenId creator (nft_defaultRoyaltyBps s2) (nft_royalty s2))
               (\<lambda>reg. Inr (tokenId, s2\<lparr>nft_royalty := reg\<rparr>)))))"

text \<open>\<open>setTokenRoyalty\<close> of the single-edition contract: existence, then authority, then rate.\<close>

definition nft_setTokenRoyalty ::
  "address \<Rightarrow> nat \<Rightarrow> address \<Rightarrow> nat \<Rightarrow> nft_state \<Rightarrow> error + nft_state" where
  "nft_setTokenRoyalty sender tokenId receiver royaltyBps s =
     (if \<not> ownerOf_internal s tokenId \<noteq> null_address then Inl (Revert ''Token does not exist'')
      else if \<not> (nft_creators s tokenId = sender \<or> nft_roles s DEFAULT_ADMIN_ROLE sender)
        then Inl (Revert ''Only creator or admin can set royalty'')
      else if \<not> royaltyBps \<le> 1000 then Inl (Revert ''Royalty cannot exceed 10%'')
      else bindE (setTokenRoyalty_internal tokenId receiver royaltyBps (nft_royalty s))
             (\<lambda>reg. Inr (s\<lparr>nft_royalty := reg\<rparr>)))"

definition setDefaultRoyalty :: "address \<Rightarrow> nat \<Rightarrow> nft_state \<Rightarrow> error + nft_state" where
  "setDefaultRoyalty sender newRoyaltyBps s =
     (if \<not> nft_roles s DEFAULT_ADMIN_ROLE sender then Inl AccessControlUnauthorizedAccount
      else if \<not> newRoyaltyBps \<le> 1000 then Inl (Revert ''Royalty cannot exceed 10%'')
      else Inr (s\<lparr>nft_defaultRoyaltyBps := newRoyaltyBps\<rparr>))"

definition creatorOf :: "nft_state \<Rightarrow> nat \<Rightarrow> error + address" where
  "creatorOf s tokenId =
     (if \<not> ownerOf_internal s tokenId \<noteq> null_address then Inl (Revert ''Token does not exist'')
      else Inr (nft_creators s tokenId))"

definition totalSupply :: "nft_state \<Rightarrow> nat" where
  "totalSupply s = nft_nextTokenId s"

definition exists_token :: "nft_state \<Rightarrow> nat \<Rightarrow> bool" where
  "exists_token s tokenId \<longleftrightarrow> ownerOf_internal s tokenId \<noteq> null_address"

datatype nft_call =
    Mint address string
  | MintFor address address string
  | Burn nat
  | SetTokenRoyalty nat address nat
  | SetDefaultRoyalty nat
  | Approve address nat
  | SetApprovalForAll address bool
  | SafeTransferFrom address address nat
  | GrantRole role address
  | RevokeRole role address
  | RenounceRole role address

fun nft_exec :: "(address \<Rightarrow> bool) \<Rightarrow> address \<Rightarrow> nft_call \<Rightarrow> nft_state \<Rightarrow> error + nft_state" where
  "nft_exec accepts sender (Mint to tokenUri) s =
     bindE (mint accepts sender to tokenUri s) (\<lambda>(_, s'). Inr s')"
| "nft_exec accepts sender (MintFor to creator tokenUri) s =
     bindE (mintFor accepts sender to creator tokenUri s) (\<lambda>(_, s'). Inr s')"
| "nft_exec accepts sender (Burn tokenId) s = burn sender tokenId s"
| "nft_exec accepts sender (SetTokenRoyalty tokenId receiver royaltyBps) s =
     nft_setTokenRoyalty sender tokenId receiver royaltyBps s"
| "nft_exec accepts sender (SetDefaultRoyalty newRoyaltyBps) s = setDefaultRoyalty sender newRoyaltyBps s"
| "nft_exec accepts sender (Approve to tokenId) s = approve sender to tokenId s"
| "nft_exec accepts sender (SetApprovalForAll operator approved) s =
     setApprovalForAll sender operator approved s"
| "nft_exec accepts sender (SafeTransferFrom from to tokenId) s =
     safeTransferFrom accepts sender from to tokenId s"
| "nft_exec accepts sender (GrantRole r account) s = grantRole sender r account s"
| "nft_exec accepts sender (RevokeRole r account) s = revokeRole sender r account s"
| "nft_exec accepts sender (RenounceRole r confirmation) s = renounceRole sender r confirmation s"

text \<open>
  A history of the single-edition contract is a list of calls, each with its caller and
  the acknowledgements recipients give during it. \<open>nft_run\<close> replays a history;
  \<open>mints_performed\<close> counts the mint calls of the history that committed.
\<close>

record nft_tx =
  ntx_accepts :: "address \<Rightarrow> bool"
  ntx_sender :: address
  ntx_call :: nft_call

definition nft_apply :: "nft_tx \<Rightarrow> nft_state \<Rightarrow> nft_state" where
  "nft_apply t s = commit s (nft_exec (ntx_accepts t) (ntx_sender t) (ntx_call t) s)"

fun nft_run :: "nft_tx list \<Rightarrow> nft_state \<Rightarrow> nft_state" where
  "nft_run [] s = s"
| "nft_run (t # ts) s = nft_run ts (nft_apply t s)"

fun is_mint_call :: "nft_call \<Rightarrow> bool" where
  "is_mint_call (Mint _ _) = True"
| "is_mint_call (MintFor _ _ _) = True"
| "is_mint_call _ = False"

fun mints_performed :: "nft_tx list \<Rightarrow> nft_state \<Rightarrow> nat" where
  "mints_performed [] s = 0"
| "mints_performed (t # ts) s =
     (if is_mint_call (ntx_call t) \<and> \<not> isl (nft_exec (ntx_accepts t) (ntx_sender t) (ntx_call t) s)
      then 1 else 0) + mints_performed ts (nft_apply t s)"


section \<open>Marketplace settlement engine (contract Marketplace)\<close>

datatype TokenStandard = ERC721 | ERC1155

datatype ListingStatus = Active | Sold | Cancelled

record Listing =
  l_seller :: address
  l_tokenContract :: address
  l_tokenId :: nat
  l_amount :: nat
  l_price :: nat
  l_standard :: TokenStandard
  l_status :: ListingStatus
  l_createdAt :: nat

text \<open>The zero value of the struct: every enum at its first member.\<close>

definition zero_Listing :: Listing where
  "zero_Listing =
     \<lparr>l_seller = null_address, l_tokenContract = null_address, l_tokenId = 0, l_amount = 0,
      l_price = 0, l_standard = ERC721, l_status = Active, l_createdAt = 0\<rparr>"

record market_state =
  platformFeeBps :: nat
  feeRecipient :: address
  listingIdCounter :: nat
  listings :: "nat \<Rightarrow> Listing"
  sellerListings :: "address \<Rightarrow> nat list"
  mp_owner :: address
  paused :: bool

definition constructor_Marketplace :: "address \<Rightarrow> address \<Rightarrow> error + market_state" where
  "constructor_Marketplace deployer recipient =
     (if deployer = null_address then Inl OwnableInvalidOwner
      else if \<not> recipient \<noteq> null_address then Inl (Revert ''Invalid fee recipient'')
      else Inr \<lparr>platformFeeBps = 250,
                feeRecipient = recipient,
                listingIdCounter = 0,
                listings = (\<lambda>_. zero_Listing),
                sellerListings = (\<lambda>_. []),
                mp_owner = deployer,
                paused = False\<rparr>)"

text \<open>
  The engine talks to token contracts it does not know. During one call, the contract at
  an address is what it answers: \<open>None\<close> is a call that reverts. \<open>env_code\<close> gives the
  contract deployed at an address, if any; no contract is deployed at \<open>address(0)\<close>,
  and a typed call to an address without code reverts. \<open>env_payable\<close> says whether a
  plain value transfer to an address is accepted.
\<close>

record token_view =
  tv_ownerOf :: "nat \<Rightarrow> address option"
  tv_getApproved :: "nat \<Rightarrow> address option"
  tv_isApprovedForAll :: "address \<Rightarrow> address \<Rightarrow> bool option"
  tv_balanceOf :: "address \<Rightarrow> nat \<Rightarrow> nat option"
  tv_supportsInterface :: "bool option"
  tv_royaltyInfo :: "nat \<Rightarrow> nat \<Rightarrow> (address \<times> nat) option"
  tv_safeTransferFrom721 :: "address \<Rightarrow> address \<Rightarrow> address \<Rightarrow> nat \<Rightarrow> bool"
  tv_safeTransferFrom1155 :: "address \<Rightarrow> address \<Rightarrow> address \<Rightarrow> nat \<Rightarrow> nat \<Rightarrow> bool"

record env =
  env_this :: address
  env_timestamp :: nat
  env_code :: "address \<Rightarrow> token_view option"
  env_payable :: "address \<Rightarrow> bool"

definition code_at :: "env \<Rightarrow> address \<Rightarrow> token_view option" where
  "code_at e a = (if a = null_address then None else env_code e a)"

definition external :: "'a option \<Rightarrow> error + 'a" where
  "external answer = (case answer of None \<Rightarrow> Inl ExternalCallFailed | Some x \<Rightarrow> Inr x)"

definition listERC721 ::
  "env \<Rightarrow> address \<Rightarrow> address \<Rightarrow> nat \<Rightarrow> nat \<Rightarrow> market_state \<Rightarrow> error + (nat \<times> market_state)" where
  "listERC721 e sender tokenContract tokenId price s =
     (if paused s then Inl EnforcedPause
      else if \<not> price > 0 then Inl (Revert ''Price must be greater than 0'')
      else bindE (external (code_at e tokenContract)) (\<lambda>nft.
           bindE (external (tv_ownerOf nft tokenId)) (\<lambda>holder.
             if \<not> holder = sender then Inl (Revert ''Not token owner'')
             else bindE (external (tv_isApprovedForAll nft sender (env_this e))) (\<lambda>forAll.
                  bindE (if forAll then Inr True
                         else bindE (external (tv_getApproved nft tokenId))
                                (\<lambda>approved. Inr (approved = env_this e))) (\<lambda>ok.
                    if \<not> ok then Inl (Revert ''Marketplace not approved'')
                    else bindE (checked_add (listingIdCounter s) 1) (\<lambda>next.
                      let listingId = listingIdCounter s in
                      Inr (listingId,
                           s\<lparr>listingIdCounter := next,
                             listings := (listings s)(listingId :=
                               \<lparr>l_seller = sender, l_tokenContract = tokenContract,
                                l_tokenId = tokenId, l_amount = 1, l_price = price,
                                l_standard = ERC721, l_status = Active,
                                l_createdAt = env_timestamp e\<rparr>),
                             sellerListings := (sellerListings s)(sender :=
                               sellerListings s sender @ [listingId])\<rparr>)))))))"

definition listERC1155 ::
  "env \<Rightarrow> address \<Rightarrow> address \<Rightarrow> nat \<Rightarrow> nat \<Rightarrow> nat \<Rightarrow> market_state \<Rightarrow> error + (nat \<times> market_state)" where
  "listERC1155 e sender tokenContract tokenId amount price s =
     (if paused s then Inl EnforcedPause
      else if \<not> price > 0 then Inl (Revert ''Price must be greater than 0'')
      else if \<not> amount > 0 then Inl (Revert ''Amount must be greater than 0'')
      else bindE (external (code_at e tokenContract)) (\<lambda>nft.
           bindE (external (tv_balanceOf nft sender tokenId)) (\<lambda>held.
             if \<not> held \<ge> amount then Inl (Revert ''Insufficient balance'')
             else bindE (external (tv_isApprovedForAll nft sender (env_this e))) (\<lambda>forAll.
               if \<not> forAll then Inl (Revert ''Marketplace not approved'')
               else bindE (checked_add (listingIdCounter s) 1) (\<lambda>next.
                 let listingId = listingIdCounter s in
                 Inr (listingId,
                      s\<lparr>listingIdCounter := next,
                        listings := (listings s)(listingId :=
                          \<lparr>l_seller = sender, l_tokenContract = tokenContract,
                           l_tokenId = tokenId, l_amount = amount, l_price = price,
                           l_standard = ERC1155, l_status = Active,
                           l_createdAt = env_timestamp e\<rparr>),
                        sellerListings := (sellerListings s)(sender :=
                          sellerListings s sender @ [listingId])\<rparr>))))))"

text \<open>
  \<open>_supportsRoyalty\<close>: the probe sits in a \<open>try\<close>, so a probe the token contract
  rejects counts as "no royalty"; a probe sent to an address without code is not a
  failure of the callee and reverts the whole call.
\<close>

definition supportsRoyalty :: "env \<Rightarrow> address \<Rightarrow> error + bool" where
  "supportsRoyalty e tokenContract =
     bindE (external (code_at e tokenContract)) (\<lambda>nft.
       case tv_supportsInterface nft of None \<Rightarrow> Inr False | Some supported \<Rightarrow> Inr supported)"

definition transferETH :: "env \<Rightarrow> address \<Rightarrow> nat \<Rightarrow> (address \<times> nat) list \<Rightarrow> error + (address \<times> nat) list" where
  "transferETH e to amount paid =
     (if \<not> env_payable e to then Inl (Revert ''ETH transfer failed'')
      else Inr (paid @ [(to, amount)]))"

text \<open>
  What a committed \<open>buy\<close> did besides changing the listing: the figures of the \<open>Sale\<close>
  event, the seller's proceeds, and the value transfers in the order they were made.
\<close>

record Sale =
  sale_listingId :: nat
  sale_buyer :: address
  sale_seller :: address
  sale_price :: nat
  sale_platformFee :: nat
  sale_royaltyAmount :: nat
  sale_royaltyReceiver :: address
  sale_sellerProceeds :: nat
  sale_payments :: "(address \<times> nat) list"

text \<open>
  The three blocks of \<open>buy\<close> after the fee is computed: the royalty query with its
  cap and its seller rule, the transfer of the asset, and the value transfers.
\<close>

definition compute_royalty :: "env \<Rightarrow> Listing \<Rightarrow> error + (address \<times> nat)" where
  "compute_royalty e listing =
     bindE (supportsRoyalty e (l_tokenContract listing)) (\<lambda>supported.
       if supported
       then bindE (external (code_at e (l_tokenContract listing))) (\<lambda>nft.
            bindE (external (tv_royaltyInfo nft (l_tokenId listing) (l_price listing)))
              (\<lambda>(royaltyReceiver, reported).
            bindE (checked_mul (l_price listing) 1000) (\<lambda>scaledCap.
              let maxRoyalty = scaledCap div 10000;
                  capped = (if reported > maxRoyalty then maxRoyalty else reported);
                  royaltyAmount = (if royaltyReceiver = l_seller listing then 0 else capped)
              in Inr (royaltyReceiver, royaltyAmount))))
       else Inr (null_address, 0))"

definition transfer_token :: "env \<Rightarrow> Listing \<Rightarrow> address \<Rightarrow> error + unit" where
  "transfer_token e listing sender =
     bindE (external (code_at e (l_tokenContract listing))) (\<lambda>nft.
       if \<not> (if l_standard listing = ERC721
              then tv_safeTransferFrom721 nft (env_this e) (l_seller listing) sender
                     (l_tokenId listing)
              else tv_safeTransferFrom1155 nft (env_this e) (l_seller listing) sender
                     (l_tokenId listing) (l_amount listing))
         then Inl ExternalCallFailed
       else Inr ())"

definition transfer_payments ::
  "env \<Rightarrow> address \<Rightarrow> Listing \<Rightarrow> nat \<Rightarrow> address \<Rightarrow> nat \<Rightarrow> nat \<Rightarrow> error + (address \<times> nat) list" where
  "transfer_payments e recipient listing platformFee royaltyReceiver royaltyAmount sellerProceeds =
     bindE (if platformFee > 0 then transferETH e recipient platformFee [] else Inr []) (\<lambda>paid1.
     bindE (if royaltyAmount > 0 \<and> royaltyReceiver \<noteq> null_address
            then transferETH e royaltyReceiver royaltyAmount paid1
            else Inr paid1) (\<lambda>paid2.
       transferETH e (l_seller listing) sellerProceeds paid2))"

definition buy :: "env \<Rightarrow> address \<Rightarrow> nat \<Rightarrow> nat \<Rightarrow> market_state \<Rightarrow> error + (Sale \<times> market_state)" where
  "buy e sender val listingId s =
     (if paused s then Inl EnforcedPause
      else
        let listing = listings s listingId in
        if \<not> l_status listing = Active then Inl (Revert ''Listing not active'')
        else if \<not> sender \<noteq> l_seller listing then Inl (Revert ''Cannot buy own listing'')
        else if \<not> val = l_price listing then Inl (Revert ''Incorrect payment amount'')
        else
          let s1 = s\<lparr>listings := (listings s)(listingId := listing\<lparr>l_status := Sold\<rparr>)\<rparr> in
          bindE (checked_mul (l_price listing) (platformFeeBps s1)) (\<lambda>scaledFee.
          let platformFee = scaledFee div 10000 in
          bindE (compute_royalty e listing) (\<lambda>(royaltyReceiver, royaltyAmount).
          bindE (checked_sub (l_price listing) platformFee) (\<lambda>afterFee.
          bindE (checked_sub afterFee royaltyAmount) (\<lambda>sellerProceeds.
          bindE (transfer_token e listing sender) (\<lambda>_.
          bindE (transfer_payments e (feeRecipient s1) listing platformFee royaltyReceiver
                   royaltyAmount sellerProceeds) (\<lambda>paid.
            Inr (\<lparr>sale_listingId = listingId, sale_buyer = sender,
                  sale_seller = l_seller listing, sale_price = l_price listing,
                  sale_platformFee = platformFee, sale_royaltyAmount = royaltyAmount,
                  sale_royaltyReceiver = royaltyReceiver,
                  sale_sellerProceeds = sellerProceeds, sale_payments = paid\<rparr>,
                 s1))))))))"

definition cancelListing :: "address \<Rightarrow> nat \<Rightarrow> market_state \<Rightarrow> error + market_state" where
  "cancelListing sender listingId s =
     (let listing = listings s listingId in
      if \<not> l_status listing = Active then Inl (Revert ''Listing not active'')
      else if \<not> (l_seller listing = sender \<or> sender = mp_owner s) then Inl (Revert ''Not authorized'')
      else Inr (s\<lparr>listings := (listings s)(listingId := listing\<lparr>l_status := Cancelled\<rparr>)\<rparr>))"

definition setPlatformFee :: "address \<Rightarrow> nat \<Rightarrow> market_state \<Rightarrow> error + market_state" where
  "setPlatformFee sender newFeeBps s =
     (if sender \<noteq> mp_owner s then Inl OwnableUnauthorizedAccount
      else if \<not> newFeeBps \<le> 1000 then Inl (Revert ''Fee cannot exceed 10%'')
      else Inr (s\<lparr>platformFeeBps := newFeeBps\<rparr>))"

definition setFeeRecipient :: "address \<Rightarrow> address \<Rightarrow> market_state \<Rightarrow> error + market_state" where
  "setFeeRecipient sender newRecipient s =
     (if sender \<noteq> mp_owner s then Inl OwnableUnauthorizedAccount
      else if \<not> newRecipient \<noteq> null_address then Inl (Revert ''Invalid recipient'')
      else Inr (s\<lparr>feeRecipient := newRecipient\<rparr>))"

definition pause :: "address \<Rightarrow> market_state \<Rightarrow> error + market_state" where
  "pause sender s =
     (if sender \<noteq> mp_owner s then Inl OwnableUnauthorizedAccount
      else if paused s then Inl EnforcedPause
      else Inr (s\<lparr>paused := True\<rparr>))"

definition unpause :: "address \<Rightarrow> market_state \<Rightarrow> error + market_state" where
  "unpause sender s =
     (if sender \<noteq> mp_owner s then Inl OwnableUnauthorizedAccount
      else if \<not> paused s then Inl ExpectedPause
      else Inr (s\<lparr>paused := False\<rparr>))"

text \<open>
  Modelled from the spec: handing over or giving up the administrator capability (the
  imported ownership base, whose text is not among the sources); section 4.3 makes the
  administrative operations administrator-only.
\<close>

definition transferOwnership :: "address \<Rightarrow> address \<Rightarrow> market_state \<Rightarrow> error + market_state" where
  "transferOwnership sender newOwner s =
     (if sender \<noteq> mp_owner s then Inl OwnableUnauthorizedAccount
      else if newOwner = null_address then Inl OwnableInvalidOwner
      else Inr (s\<lparr>mp_owner := newOwner\<rparr>))"

definition renounceOwnership :: "address \<Rightarrow> market_state \<Rightarrow> error + market_state" where
  "renounceOwnership sender s =
     (if sender \<noteq> mp_owner s then Inl OwnableUnauthorizedAccount
      else Inr (s\<lparr>mp_owner := null_address\<rparr>))"

definition getListing :: "market_state \<Rightarrow> nat \<Rightarrow> Listing" where
  "getListing s listingId = listings s listingId"

definition getSellerListings :: "market_state \<Rightarrow> address \<Rightarrow> nat list" where
  "getSellerListings s seller = sellerListings s seller"

definition totalListings :: "market_state \<Rightarrow> nat" where
  "totalListings s = listingIdCounter s"

definition isListingActive :: "market_state \<Rightarrow> nat \<Rightarrow> bool" where
  "isListingActive s listingId \<longleftrightarrow> l_status (listings s listingId) = Active"

text \<open>
  The calls of the engine, and its histories. Only \<open>buy\<close> is payable: any other call
  that carries value reverts before its body runs.
\<close>

datatype market_call =
    ListERC721 address nat nat
  | ListERC1155 address nat nat nat
  | Buy nat
  | CancelListing nat
  | SetPlatformFee nat
  | SetFeeRecipient address
  | Pause
  | Unpause
  | TransferOwnership address
  | RenounceOwnership

fun market_body :: "env \<Rightarrow> address \<Rightarrow> nat \<Rightarrow> market_call \<Rightarrow> market_state \<Rightarrow> error + market_state" where
  "market_body e sender val (ListERC721 tokenContract tokenId price) s =
     bindE (listERC721 e sender tokenContract tokenId price s) (\<lambda>(_, s'). Inr s')"
| "market_body e sender val (ListERC1155 tokenContract tokenId amount price) s =
     bindE (listERC1155 e sender tokenContract tokenId amount price s) (\<lambda>(_, s'). Inr s')"
| "market_body e sender val (Buy listingId) s =
     bindE (buy e sender val listingId s) (\<lambda>(_, s'). Inr s')"
| "market_body e sender val (CancelListing listingId) s = cancelListing sender listingId s"
| "market_body e sender val (SetPlatformFee newFeeBps) s = setPlatformFee sender newFeeBps s"
| "market_body e sender val (SetFeeRecipient newRecipient) s = setFeeRecipient sender newRecipient s"
| "market_body e sender val Pause s = pause sender s"
| "market_body e sender val Unpause s = unpause sender s"
| "market_body e sender val (TransferOwnership newOwner) s = transferOwnership sender newOwner s"
| "market_body e sender val RenounceOwnership s = renounceOwnership sender s"

fun is_payable :: "market_call \<Rightarrow> bool" where
  "is_payable (Buy _) = True"
| "is_payable _ = False"

definition market_exec :: "env \<Rightarrow> address \<Rightarrow> nat \<Rightarrow> market_call \<Rightarrow> market_state \<Rightarrow> error + market_state" where
  "market_exec e sender val c s =
     (if \<not> is_payable c \<and> val \<noteq> 0 then Inl (Revert [])
      else market_body e sender val c s)"

record market_tx =
  mtx_env :: env
  mtx_sender :: address
  mtx_value :: nat
  mtx_call :: market_call

definition market_apply :: "market_tx \<Rightarrow> market_state \<Rightarrow> market_state" where
  "market_apply t s = commit s (market_exec (mtx_env t) (mtx_sender t) (mtx_value t) (mtx_call t) s)"

fun market_run :: "market_tx list \<Rightarrow> market_state \<Rightarrow> market_state" where
  "market_run [] s = s"
| "market_run (t # ts) s = market_run ts (market_apply t s)"


section \<open>The engine wired to the single-edition ledger\<close>

text \<open>
  One deployment of the single-edition contract at \<open>ctx_nft\<close>, one of the engine at
  \<open>ctx_market\<close>, and the native-currency balance of every address. \<open>nft_view\<close> is
  what the single-edition contract answers to the engine in its current state: it has no
  two-argument \<open>balanceOf\<close> and no multi-unit transfer, and it announces the royalty
  interface.
\<close>

record world =
  w_nft :: nft_state
  w_market :: market_state
  w_eth :: "address \<Rightarrow> nat"

record ctx =
  ctx_nft :: address
  ctx_market :: address
  ctx_accepts :: "address \<Rightarrow> bool"
  ctx_payable :: "address \<Rightarrow> bool"
  ctx_timestamp :: nat

definition answer :: "error + 'a \<Rightarrow> 'a option" where
  "answer r = (case r of Inl _ \<Rightarrow> None | Inr x \<Rightarrow> Some x)"

definition nft_view :: "(address \<Rightarrow> bool) \<Rightarrow> nft_state \<Rightarrow> token_view" where
  "nft_view accepts n =
     \<lparr>tv_ownerOf = (\<lambda>tokenId. answer (ownerOf n tokenId)),
      tv_getApproved = (\<lambda>tokenId. answer (getApproved n tokenId)),
      tv_isApprovedForAll = (\<lambda>holder operator. Some (isApprovedForAll n holder operator)),
      tv_balanceOf = (\<lambda>_ _. None),
      tv_supportsInterface = Some True,
      tv_royaltyInfo = (\<lambda>tokenId salePrice. answer (royaltyInfo (nft_royalty n) tokenId salePrice)),
      tv_safeTransferFrom721 = (\<lambda>operator from to tokenId.
         \<not> isl (safeTransferFrom accepts operator from to tokenId n)),
      tv_safeTransferFrom1155 = (\<lambda>_ _ _ _ _. False)\<rparr>"

definition world_env :: "ctx \<Rightarrow> world \<Rightarrow> env" where
  "world_env c w =
     \<lparr>env_this = ctx_market c,
      env_timestamp = ctx_timestamp c,
      env_code = (\<lambda>a. if a = ctx_nft c then Some (nft_view (ctx_accepts c) (w_nft w)) else None),
      env_payable = ctx_payable c\<rparr>"

definition move_eth :: "address \<Rightarrow> address \<Rightarrow> nat \<Rightarrow> (address \<Rightarrow> nat) \<Rightarrow> (address \<Rightarrow> nat)" where
  "move_eth from to amount eth =
     (let debited = eth(from := eth from - amount)
      in debited(to := debited to + amount))"

fun pay_out :: "address \<Rightarrow> (address \<times> nat) list \<Rightarrow> (address \<Rightarrow> nat) \<Rightarrow> (address \<Rightarrow> nat)" where
  "pay_out from [] eth = eth"
| "pay_out from ((to, amount) # rest) eth = pay_out from rest (move_eth from to amount eth)"

text \<open>
  A purchase in the wired system: the buyer's value reaches the engine, the engine runs
  \<open>buy\<close> against the ledger's answers, the ledger performs the transfer the engine
  asked for, and the engine's value transfers are carried out.
\<close>

definition world_buy :: "ctx \<Rightarrow> address \<Rightarrow> nat \<Rightarrow> nat \<Rightarrow> world \<Rightarrow> error + (Sale \<times> world)" where
  "world_buy c sender val listingId w =
     (if w_eth w sender < val then Inl InsufficientFunds
      else
        let listing = listings (w_market w) listingId;
            funded = move_eth sender (ctx_market c) val (w_eth w) in
        bindE (buy (world_env c w) sender val listingId (w_market w)) (\<lambda>(sale, m').
        bindE (if l_tokenContract listing = ctx_nft c \<and> l_standard listing = ERC721
               then safeTransferFrom (ctx_accepts c) (ctx_market c) (l_seller listing) sender
                      (l_tokenId listing) (w_nft w)
               else Inr (w_nft w)) (\<lambda>n'.
          Inr (sale, \<lparr>w_nft = n', w_market = m',
                      w_eth = pay_out (ctx_market c) (sale_payments sale) funded\<rparr>))))"

text \<open>
  The mint-for-other sale: a minter mints to \<open>holder\<close> with creator \<open>creator\<close>, the
  holder approves the engine for the new token and lists it at \<open>price\<close>, and \<open>buyer\<close>
  buys the listing paying \<open>price\<close>.
\<close>

definition mint_for_other_sale ::
  "ctx \<Rightarrow> address \<Rightarrow> address \<Rightarrow> address \<Rightarrow> string \<Rightarrow> address \<Rightarrow> nat \<Rightarrow> world \<Rightarrow> error + (Sale \<times> world)" where
  "mint_for_other_sale c minter holder creator tokenUri buyer price w =
     bindE (mintFor (ctx_accepts c) minter holder creator tokenUri (w_nft w)) (\<lambda>(tokenId, n1).
     bindE (approve holder (ctx_market c) tokenId n1) (\<lambda>n2.
       let w2 = w\<lparr>w_nft := n2\<rparr> in
       bindE (listERC721 (world_env c w2) holder (ctx_nft c) tokenId price (w_market w2))
         (\<lambda>(listingId, m1).
           world_buy c buyer price listingId (w2\<lparr>w_market := m1\<rparr>))))"

section \<open>Notions of the specification and concrete scenes\<close>


text \<open>
  The specification's reading of \<open>createAndMint\<close>, in its words "atomic composition of
  the two above": \<open>createEdition\<close>, then \<open>mintEdition\<close> on the type it returned, the
  whole failing when either fails.
\<close>

definition create_then_mint ::
  "(address \<Rightarrow> bool) \<Rightarrow> address \<Rightarrow> address \<Rightarrow> address \<Rightarrow> string \<Rightarrow> nat \<Rightarrow> nat \<Rightarrow> multi_state
     \<Rightarrow> error + (nat \<times> multi_state)" where
  "create_then_mint accepts sender to creator tokenUri maxSupply amount s =
     bindE (createEdition sender creator tokenUri maxSupply s) (\<lambda>(tokenTypeId, s1).
     bindE (mintEdition accepts sender to tokenTypeId amount s1) (\<lambda>s2. Inr (tokenTypeId, s2)))"

text \<open>
  A multi-edition contract deployed by 10 with default royalty 500; then type 0 created
  for creator 12 with \<open>maxSupply = 10\<close>; then five units of it minted to 13. Every
  recipient acknowledges.
\<close>

definition everyone :: "address \<Rightarrow> bool" where
  "everyone a = True"

definition example_multi0 :: multi_state where
  "example_multi0 = constructor_NFTMultiEdition 10 500"

definition example_multi1 :: multi_state where
  "example_multi1 =
     commit example_multi0 (multi_exec everyone 10 (CreateEdition 12 ''ipfs://e'' 10) example_multi0)"

definition example_multi2 :: multi_state where
  "example_multi2 =
     commit example_multi1 (multi_exec everyone 10 (MintEdition 13 0 5) example_multi1)"

text \<open>
  A single-edition contract deployed by 10 with default royalty 500; then token 0 minted
  to 11 with creator 12. The history mints that token, lets its owner burn it, and ends
  with a mint attempted by 13, who holds no minter role.
\<close>

definition example_nft0 :: nft_state where
  "example_nft0 = constructor_NFT 10 500"

definition example_nft1 :: nft_state where
  "example_nft1 =
     commit example_nft0 (nft_exec everyone 10 (MintFor 11 12 ''ipfs://a'') example_nft0)"

definition example_nft_history :: "nft_tx list" where
  "example_nft_history =
     [\<lparr>ntx_accepts = everyone, ntx_sender = 10, ntx_call = MintFor 11 12 ''ipfs://a''\<rparr>,
      \<lparr>ntx_accepts = everyone, ntx_sender = 11, ntx_call = Burn 0\<rparr>,
      \<lparr>ntx_accepts = everyone, ntx_sender = 13, ntx_call = Mint 13 ''ipfs://b''\<rparr>]"

text \<open>The names the specification gives to the failures of the engine.\<close>

definition ListingNotActive :: error where
  "ListingNotActive = Revert ''Listing not active''"

definition SelfPurchase :: error where
  "SelfPurchase = Revert ''Cannot buy own listing''"

definition WrongPayment :: error where
  "WrongPayment = Revert ''Incorrect payment amount''"

text \<open>A history in which nobody calls \<open>cancelListing\<close> on the given identifier.\<close>

definition never_cancelled :: "nat \<Rightarrow> market_tx list \<Rightarrow> bool" where
  "never_cancelled listingId ts \<longleftrightarrow> (\<forall>t \<in> set ts. mtx_call t \<noteq> CancelListing listingId)"

text \<open>
  A concrete scene: a token contract at address 50 that reports a royalty of the whole
  price to address 12, the engine at address 99 deployed by 9 with fee recipient 4, a
  seller 11 holding five units of identifier 0, and a buyer 13.
\<close>

definition example_token :: token_view where
  "example_token =
     \<lparr>tv_ownerOf = (\<lambda>t. if t = 0 then Some 11 else None),
      tv_getApproved = (\<lambda>t. if t = 0 then Some 99 else None),
      tv_isApprovedForAll = (\<lambda>h p. Some (h = 11 \<and> p = 99)),
      tv_balanceOf = (\<lambda>a t. Some (if a = 11 \<and> t = 0 then 5 else 0)),
      tv_supportsInterface = Some True,
      tv_royaltyInfo = (\<lambda>t p. Some (12, p)),
      tv_safeTransferFrom721 = (\<lambda>operator holder to t. operator = 99 \<and> holder = 11 \<and> t = 0),
      tv_safeTransferFrom1155 = (\<lambda>operator holder to t n.
         operator = 99 \<and> holder = 11 \<and> t = 0 \<and> n = 5)\<rparr>"

definition example_env :: env where
  "example_env =
     \<lparr>env_this = 99, env_timestamp = 1000,
      env_code = (\<lambda>a. if a = 50 then Some example_token else None),
      env_payable = (\<lambda>_. True)\<rparr>"

definition example_market0 :: market_state where
  "example_market0 =
     \<lparr>platformFeeBps = 250, feeRecipient = 4, listingIdCounter = 0,
      listings = (\<lambda>_. zero_Listing), sellerListings = (\<lambda>_. []), mp_owner = 9, paused = False\<rparr>"

definition example_list_tx :: market_tx where
  "example_list_tx =
     \<lparr>mtx_env = example_env, mtx_sender = 11, mtx_value = 0,
      mtx_call = ListERC1155 50 0 5 10000\<rparr>"

definition example_listing :: Listing where
  "example_listing =
     \<lparr>l_seller = 11, l_tokenContract = 50, l_tokenId = 0, l_amount = 5, l_price = 10000,
      l_standard = ERC1155, l_status = Active, l_createdAt = 1000\<rparr>"

definition example_market1 :: market_state where
  "example_market1 =
     example_market0\<lparr>listingIdCounter := 1,
                     listings := (listings example_market0)(0 := example_listing),
                     sellerListings := (sellerListings example_market0)(11 := [0])\<rparr>"

definition example_sale :: Sale where
  "example_sale =
     \<lparr>sale_listingId = 0, sale_buyer = 13, sale_seller = 11, sale_price = 10000,
      sale_platformFee = 250, sale_royaltyAmount = 1000, sale_royaltyReceiver = 12,
      sale_sellerProceeds = 8750, sale_payments = [(4, 250), (12, 1000), (11, 8750)]\<rparr>"

definition example_market2 :: market_state where
  "example_market2 =
     example_market1\<lparr>listings := (listings example_market1)(0 := example_listing\<lparr>l_status := Sold\<rparr>)\<rparr>"

definition example_later_txs :: "market_tx list" where
  "example_later_txs =
     [\<lparr>mtx_env = example_env, mtx_sender = 11, mtx_value = 0, mtx_call = CancelListing 0\<rparr>,
      \<lparr>mtx_env = example_env, mtx_sender = 11, mtx_value = 0, mtx_call = ListERC1155 50 0 5 10000\<rparr>,
      \<lparr>mtx_env = example_env, mtx_sender = 13, mtx_value = 10000, mtx_call = Buy 0\<rparr>,
      \<lparr>mtx_env = example_env, mtx_sender = 9, mtx_value = 0, mtx_call = Pause\<rparr>]"

definition example_precancel_tx :: market_tx where
  "example_precancel_tx =
     \<lparr>mtx_env = example_env, mtx_sender = 9, mtx_value = 0, mtx_call = CancelListing 7\<rparr>"

definition example_paused_market :: market_state where
  "example_paused_market = example_market1\<lparr>paused := True\<rparr>"

text \<open>
  A concrete wired system: both contracts freshly deployed (the ledger by 10 with default
  royalty 500, the engine by 9 with fee recipient 4), every recipient acknowledging, and
  buyer 13 holding two units of currency.
\<close>

definition example_ctx :: ctx where
  "example_ctx =
     \<lparr>ctx_nft = 50, ctx_market = 99, ctx_accepts = everyone, ctx_payable = everyone,
      ctx_timestamp = 1000\<rparr>"

definition example_world :: world where
  "example_world =
     \<lparr>w_nft = constructor_NFT 10 500, w_market = example_market0,
      w_eth = (\<lambda>_. 0)(13 := 2000000000000000000)\<rparr>"

section \<open>Properties of the multi-edition ledger\<close>

lemma max_uint256_value: "MAX_UINT256 = 115792089237316195423570985008687907853269984665640564039457584007913129639935"
  by (simp add: MAX_UINT256_def)

lemma example_multi1_eq:
  "example_multi1 = example_multi0
     \<lparr>me_nextTokenTypeId := 1,
      me_tokenTypes := (me_tokenTypes example_multi0)(0 :=
        \<lparr>tt_creator = 12, tt_uri = ''ipfs://e'', tt_maxSupply = 10, tt_mintedSupply = 0\<rparr>),
      me_royalty := (me_royalty example_multi0)(0 := \<lparr>ri_receiver = 12, ri_royaltyFraction = 500\<rparr>)\<rparr>"
  by (simp add: example_multi1_def example_multi0_def constructor_NFTMultiEdition_def
      createEdition_def bindE_def checked_add_def max_uint256_value null_address_def Let_def
      setTokenRoyalty_internal_def feeDenominator_def commit_def)

lemma example_multi2_eq:
  "example_multi2 = example_multi1
     \<lparr>me_tokenTypes := (me_tokenTypes example_multi1)(0 :=
        \<lparr>tt_creator = 12, tt_uri = ''ipfs://e'', tt_maxSupply = 10, tt_mintedSupply = 5\<rparr>),
      me_balances := (me_balances example_multi1)(0 := (me_balances example_multi1 0)(13 := 5)),
      me_totalSupply := (me_totalSupply example_multi1)(0 := 5),
      me_totalSupplyAll := 5\<rparr>"
  by (simp add: example_multi2_def example_multi1_eq example_multi0_def constructor_NFTMultiEdition_def
      mintEdition_def erc1155_mint_def bindE_def checked_add_def max_uint256_value null_address_def
      Let_def commit_def everyone_def)













lemma example_multi2_facts:
  "me_roles example_multi2 MINTER_ROLE 10"
  "tokenTypeExists example_multi2 0"
  "\<not> tokenTypeExists example_multi2 7"
  "me_tokenTypes example_multi2 0 =
     \<lparr>tt_creator = 12, tt_uri = ''ipfs://e'', tt_maxSupply = 10, tt_mintedSupply = 5\<rparr>"
  "me_nextTokenTypeId example_multi2 = 1"
  "me_balances example_multi2 0 13 = 5"
  "me_balances example_multi2 0 14 = 0"
  "me_totalSupply example_multi2 0 = 5"
  "me_totalSupplyAll example_multi2 = 5"
  by (simp_all add: example_multi2_eq example_multi1_eq example_multi0_def
      constructor_NFTMultiEdition_def tokenTypeExists_def null_address_def zero_TokenType_def)


text \<open>
  Claim C4: \<open>createAndMint\<close> is to behave as \<open>createEdition\<close> followed by
  \<open>mintEdition\<close>, failing with \<open>InvalidURI\<close> for an empty URI. The source of
  \<open>createAndMint\<close> repeats neither the creator test nor the URI test of
  \<open>createEdition\<close>. On a freshly deployed contract, with minter 10, recipient 13,
  creator 12, the empty URI, \<open>maxSupply = 10\<close> and \<open>amount = 5\<close>:
  \<open>createEdition\<close> and the composition fail with \<open>InvalidURI\<close>, while
  \<open>createAndMint\<close> commits a type whose URI is empty.
\<close>

theorem createAndMint_accepts_empty_uri:
  "me_roles example_multi0 MINTER_ROLE 10 \<and>
   createEdition 10 12 [] 10 example_multi0 = Inl InvalidURI \<and>
   create_then_mint everyone 10 13 12 [] 10 5 example_multi0 = Inl InvalidURI \<and>
   createAndMint everyone 10 13 12 [] 10 5 example_multi0 =
     Inr (0, example_multi0
       \<lparr>me_nextTokenTypeId := 1,
        me_tokenTypes := (me_tokenTypes example_multi0)(0 :=
          \<lparr>tt_creator = 12, tt_uri = [], tt_maxSupply = 10, tt_mintedSupply = 5\<rparr>),
        me_royalty := (me_royalty example_multi0)(0 := \<lparr>ri_receiver = 12, ri_royaltyFraction = 500\<rparr>),
        me_balances := (me_balances example_multi0)(0 := (me_balances example_multi0 0)(13 := 5)),
        me_totalSupply := (me_totalSupply example_multi0)(0 := 5),
        me_totalSupplyAll := 5\<rparr>)"
  by (simp add: example_multi0_def constructor_NFTMultiEdition_def createEdition_def
      create_then_mint_def createAndMint_def InvalidURI_def bindE_def checked_add_def
      max_uint256_value null_address_def Let_def setTokenRoyalty_internal_def feeDenominator_def
      erc1155_mint_def everyone_def)

lemma create_then_mint_Inr_createAndMint:
  assumes "create_then_mint accepts sender to creator tokenUri maxSupply amount s = Inr r"
  shows "createAndMint accepts sender to creator tokenUri maxSupply amount s = Inr r"
  using assms
  by (auto simp: create_then_mint_def createAndMint_def createEdition_def mintEdition_def
      bindE_def checked_add_def Let_def setTokenRoyalty_internal_def erc1155_mint_def
      split: if_splits sum.splits)

lemma createAndMint_Inr_create_then_mint:
  assumes "createAndMint accepts sender to creator tokenUri maxSupply amount s = Inr r"
    and "tokenUri \<noteq> []"
  shows "create_then_mint accepts sender to creator tokenUri maxSupply amount s = Inr r"
  using assms
  by (auto simp: create_then_mint_def createAndMint_def createEdition_def mintEdition_def
      bindE_def checked_add_def Let_def setTokenRoyalty_internal_def erc1155_mint_def
      split: if_splits sum.splits)

lemma createEdition_failures:
  assumes "me_roles s MINTER_ROLE sender"
  shows "creator = null_address \<longrightarrow>
           createEdition sender creator tokenUri maxSupply s = Inl InvalidCreator"
    and "creator \<noteq> null_address \<and> tokenUri = [] \<longrightarrow>
           createEdition sender creator tokenUri maxSupply s = Inl InvalidURI"
  using assms by (simp_all add: createEdition_def InvalidCreator_def InvalidURI_def)

lemma createAndMint_failures:
  assumes "me_roles s MINTER_ROLE sender" and "0 < amount"
  shows "0 < maxSupply \<and> maxSupply < amount \<longrightarrow>
           createAndMint accepts sender to creator tokenUri maxSupply amount s
             = Inl SupplyExceeded_createAndMint"
    and "(maxSupply = 0 \<or> amount \<le> maxSupply) \<and> creator = null_address \<longrightarrow>
           createAndMint accepts sender to creator tokenUri maxSupply amount s \<noteq> Inl InvalidCreator"
  using assms
  by (auto simp: createAndMint_def SupplyExceeded_createAndMint_def InvalidCreator_def bindE_def
      checked_add_def setTokenRoyalty_internal_def Let_def)

section \<open>Royalty updates\<close>

lemma setTokenRoyalty_internal_Inr:
  "setTokenRoyalty_internal tokenId receiver fee reg = Inr reg' \<Longrightarrow>
     reg' = reg(tokenId := \<lparr>ri_receiver = receiver, ri_royaltyFraction = fee\<rparr>)"
  by (auto simp: setTokenRoyalty_internal_def split: if_splits)

text \<open>
  Claim C7. For an existing token \<open>tokenId\<close> of the single-edition contract and an
  existing type \<open>tokenTypeId\<close> of the multi-edition contract, \<open>setTokenRoyalty\<close>
  fails with \<open>Unauthorized\<close> unless the caller is the item's creator or holds the
  administrator role; for such a caller it fails with \<open>InvalidRate\<close> when the rate
  exceeds 1000; whatever the caller, a rate above 1000 fails; a failed call leaves the
  state, hence the stored receiver and rate, as they were; and after a successful call
  the stored entry is the receiver and rate passed in, the rate being at most 1000.
\<close>

theorem setTokenRoyalty_guarded:
  assumes "exists_token n tokenId" and "tokenTypeExists m tokenTypeId"
  shows
    "(\<not> (nft_creators n tokenId = sender \<or> nft_roles n DEFAULT_ADMIN_ROLE sender) \<longrightarrow>
        nft_setTokenRoyalty sender tokenId receiver royaltyBps n = Inl Unauthorized) \<and>
     ((nft_creators n tokenId = sender \<or> nft_roles n DEFAULT_ADMIN_ROLE sender) \<and> royaltyBps > 1000 \<longrightarrow>
        nft_setTokenRoyalty sender tokenId receiver royaltyBps n = Inl InvalidRate) \<and>
     (royaltyBps > 1000 \<longrightarrow> isl (nft_setTokenRoyalty sender tokenId receiver royaltyBps n)) \<and>
     (isl (nft_setTokenRoyalty sender tokenId receiver royaltyBps n) \<longrightarrow>
        commit n (nft_setTokenRoyalty sender tokenId receiver royaltyBps n) = n) \<and>
     (\<forall>n'. nft_setTokenRoyalty sender tokenId receiver royaltyBps n = Inr n' \<longrightarrow>
        (nft_creators n tokenId = sender \<or> nft_roles n DEFAULT_ADMIN_ROLE sender) \<and>
        nft_royalty n' tokenId = \<lparr>ri_receiver = receiver, ri_royaltyFraction = royaltyBps\<rparr> \<and>
        ri_royaltyFraction (nft_royalty n' tokenId) \<le> 1000) \<and>
     (\<not> (tt_creator (me_tokenTypes m tokenTypeId) = sender \<or> me_roles m DEFAULT_ADMIN_ROLE sender) \<longrightarrow>
        me_setTokenRoyalty sender tokenTypeId receiver royaltyBps m = Inl Unauthorized) \<and>
     ((tt_creator (me_tokenTypes m tokenTypeId) = sender \<or> me_roles m DEFAULT_ADMIN_ROLE sender)
        \<and> royaltyBps > 1000 \<longrightarrow>
        me_setTokenRoyalty sender tokenTypeId receiver royaltyBps m = Inl InvalidRate) \<and>
     (royaltyBps > 1000 \<longrightarrow> isl (me_setTokenRoyalty sender tokenTypeId receiver royaltyBps m)) \<and>
     (isl (me_setTokenRoyalty sender tokenTypeId receiver royaltyBps m) \<longrightarrow>
        commit m (me_setTokenRoyalty sender tokenTypeId receiver royaltyBps m) = m) \<and>
     (\<forall>m'. me_setTokenRoyalty sender tokenTypeId receiver royaltyBps m = Inr m' \<longrightarrow>
        (tt_creator (me_tokenTypes m tokenTypeId) = sender \<or> me_roles m DEFAULT_ADMIN_ROLE sender) \<and>
        me_royalty m' tokenTypeId = \<lparr>ri_receiver = receiver, ri_royaltyFraction = royaltyBps\<rparr> \<and>
        ri_royaltyFraction (me_royalty m' tokenTypeId) \<le> 1000)"
proof -
  have ex: "ownerOf_internal n tokenId \<noteq> null_address"
    using assms(1) by (simp add: exists_token_def)
  have ty: "tt_creator (me_tokenTypes m tokenTypeId) \<noteq> null_address"
    using assms(2) by (simp add: tokenTypeExists_def)
  have n1: "\<not> (nft_creators n tokenId = sender \<or> nft_roles n DEFAULT_ADMIN_ROLE sender) \<longrightarrow>
        nft_setTokenRoyalty sender tokenId receiver royaltyBps n = Inl Unauthorized"
    using ex by (simp add: nft_setTokenRoyalty_def Unauthorized_def)
  have n2: "(nft_creators n tokenId = sender \<or> nft_roles n DEFAULT_ADMIN_ROLE sender) \<and> royaltyBps > 1000 \<longrightarrow>
        nft_setTokenRoyalty sender tokenId receiver royaltyBps n = Inl InvalidRate"
    using ex by (auto simp: nft_setTokenRoyalty_def InvalidRate_def)
  have n3: "royaltyBps > 1000 \<longrightarrow> isl (nft_setTokenRoyalty sender tokenId receiver royaltyBps n)"
    by (simp add: nft_setTokenRoyalty_def)
  have n4: "isl (nft_setTokenRoyalty sender tokenId receiver royaltyBps n) \<longrightarrow>
        commit n (nft_setTokenRoyalty sender tokenId receiver royaltyBps n) = n"
    by (auto simp: commit_def isl_def)
  have n5: "\<forall>n'. nft_setTokenRoyalty sender tokenId receiver royaltyBps n = Inr n' \<longrightarrow>
        (nft_creators n tokenId = sender \<or> nft_roles n DEFAULT_ADMIN_ROLE sender) \<and>
        nft_royalty n' tokenId = \<lparr>ri_receiver = receiver, ri_royaltyFraction = royaltyBps\<rparr> \<and>
        ri_royaltyFraction (nft_royalty n' tokenId) \<le> 1000"
    by (auto simp: nft_setTokenRoyalty_def bindE_def split: if_splits sum.splits
        dest: setTokenRoyalty_internal_Inr)
  have m1: "\<not> (tt_creator (me_tokenTypes m tokenTypeId) = sender \<or> me_roles m DEFAULT_ADMIN_ROLE sender) \<longrightarrow>
        me_setTokenRoyalty sender tokenTypeId receiver royaltyBps m = Inl Unauthorized"
    using ty by (simp add: me_setTokenRoyalty_def Unauthorized_def)
  have m2: "(tt_creator (me_tokenTypes m tokenTypeId) = sender \<or> me_roles m DEFAULT_ADMIN_ROLE sender)
        \<and> royaltyBps > 1000 \<longrightarrow>
        me_setTokenRoyalty sender tokenTypeId receiver royaltyBps m = Inl InvalidRate"
    using ty by (auto simp: me_setTokenRoyalty_def InvalidRate_def)
  have m3: "royaltyBps > 1000 \<longrightarrow> isl (me_setTokenRoyalty sender tokenTypeId receiver royaltyBps m)"
    by (simp add: me_setTokenRoyalty_def)
  have m4: "isl (me_setTokenRoyalty sender tokenTypeId receiver royaltyBps m) \<longrightarrow>
        commit m (me_setTokenRoyalty sender tokenTypeId receiver royaltyBps m) = m"
    by (auto simp: commit_def isl_def)
  have m5: "\<forall>m'. me_setTokenRoyalty sender tokenTypeId receiver royaltyBps m = Inr m' \<longrightarrow>
        (tt_creator (me_tokenTypes m tokenTypeId) = sender \<or> me_roles m DEFAULT_ADMIN_ROLE sender) \<and>
        me_royalty m' tokenTypeId = \<lparr>ri_receiver = receiver, ri_royaltyFraction = royaltyBps\<rparr> \<and>
        ri_royaltyFraction (me_royalty m' tokenTypeId) \<le> 1000"
    by (auto simp: me_setTokenRoyalty_def bindE_def split: if_splits sum.splits
        dest: setTokenRoyalty_internal_Inr)
  show ?thesis using n1 n2 n3 n4 n5 m1 m2 m3 m4 m5 by blast
qed

lemma nft_setTokenRoyalty_missing:
  "\<not> exists_token n tokenId \<Longrightarrow>
     nft_setTokenRoyalty sender tokenId receiver royaltyBps n = Inl TokenNotFound"
  by (simp add: nft_setTokenRoyalty_def exists_token_def TokenNotFound_def)

section \<open>Properties of the single-edition ledger\<close>

lemma erc721_update_next:
  "erc721_update to tokenId auth s = Inr (p, s') \<Longrightarrow> nft_nextTokenId s' = nft_nextTokenId s"
  by (auto simp: erc721_update_def Let_def split: if_splits)

lemma erc721_update_owner:
  "erc721_update to tokenId auth s = Inr (p, s') \<Longrightarrow> nft_owners s' tokenId = to"
  by (auto simp: erc721_update_def Let_def split: if_splits)

lemma safeMint_next:
  "safeMint accepts to tokenId s = Inr s' \<Longrightarrow> nft_nextTokenId s' = nft_nextTokenId s"
  by (auto simp: safeMint_def bindE_def split: if_splits sum.splits dest: erc721_update_next)

lemma mint_next:
  "mint accepts sender to tokenUri s = Inr (tokenId, s') \<Longrightarrow>
     tokenId = nft_nextTokenId s \<and> nft_nextTokenId s' = nft_nextTokenId s + 1"
  by (auto simp: mint_def bindE_def Let_def checked_add_def setTokenRoyalty_internal_def
      split: if_splits sum.splits dest!: safeMint_next)

lemma mintFor_next:
  "mintFor accepts sender to creator tokenUri s = Inr (tokenId, s') \<Longrightarrow>
     tokenId = nft_nextTokenId s \<and> nft_nextTokenId s' = nft_nextTokenId s + 1"
  by (auto simp: mintFor_def bindE_def Let_def checked_add_def setTokenRoyalty_internal_def
      split: if_splits sum.splits dest!: safeMint_next)

lemma burn_next:
  "burn sender tokenId s = Inr s' \<Longrightarrow>
     nft_nextTokenId s' = nft_nextTokenId s \<and> nft_owners s' tokenId = null_address"
  by (auto simp: burn_def bindE_def split: sum.splits dest: erc721_update_next erc721_update_owner)

lemma safeTransferFrom_next:
  "safeTransferFrom accepts sender from to tokenId s = Inr s' \<Longrightarrow> nft_nextTokenId s' = nft_nextTokenId s"
  by (auto simp: safeTransferFrom_def bindE_def split: if_splits sum.splits dest: erc721_update_next)

lemma nft_exec_next:
  assumes "nft_exec accepts sender c s = Inr s'"
  shows "nft_nextTokenId s' = nft_nextTokenId s + (if is_mint_call c then 1 else 0)"
proof (cases c)
  case (Mint to tokenUri)
  then show ?thesis using assms by (auto simp: bindE_def split: sum.splits dest: mint_next)
next
  case (MintFor to creator tokenUri)
  then show ?thesis using assms by (auto simp: bindE_def split: sum.splits dest: mintFor_next)
next
  case (Burn tokenId)
  then show ?thesis using assms by (auto dest: burn_next)
next
  case (SetTokenRoyalty tokenId receiver bps)
  then show ?thesis using assms
    by (auto simp: nft_setTokenRoyalty_def bindE_def split: if_splits sum.splits)
next
  case (SetDefaultRoyalty bps)
  then show ?thesis using assms by (auto simp: setDefaultRoyalty_def split: if_splits)
next
  case (Approve to tokenId)
  then show ?thesis using assms
    by (auto simp: approve_def bindE_def split: if_splits sum.splits)
next
  case (SetApprovalForAll operator approved)
  then show ?thesis using assms by (auto simp: setApprovalForAll_def split: if_splits)
next
  case (SafeTransferFrom holder to tokenId)
  then show ?thesis using assms by (auto dest: safeTransferFrom_next)
next
  case (GrantRole r account)
  then show ?thesis using assms by (auto simp: grantRole_def split: if_splits)
next
  case (RevokeRole r account)
  then show ?thesis using assms by (auto simp: revokeRole_def split: if_splits)
next
  case (RenounceRole r confirmation)
  then show ?thesis using assms by (auto simp: renounceRole_def split: if_splits)
qed

lemma nft_apply_next:
  "nft_nextTokenId (nft_apply t s) =
     nft_nextTokenId s +
       (if is_mint_call (ntx_call t) \<and> \<not> isl (nft_exec (ntx_accepts t) (ntx_sender t) (ntx_call t) s)
        then 1 else 0)"
proof (cases "nft_exec (ntx_accepts t) (ntx_sender t) (ntx_call t) s")
  case (Inl e)
  then show ?thesis by (simp add: nft_apply_def commit_def)
next
  case (Inr s')
  then show ?thesis using nft_exec_next [OF Inr] by (simp add: nft_apply_def commit_def)
qed

lemma nft_run_next:
  "nft_nextTokenId (nft_run ts s) = nft_nextTokenId s + mints_performed ts s"
proof (induction ts arbitrary: s)
  case Nil
  then show ?case by simp
next
  case (Cons t ts)
  have "nft_nextTokenId (nft_run (t # ts) s) = nft_nextTokenId (nft_apply t s) + mints_performed ts (nft_apply t s)"
    using Cons.IH [of "nft_apply t s"] by simp
  then show ?case by (simp add: nft_apply_next)
qed

text \<open>
  Claim C10. After any history of calls on a freshly deployed single-edition contract,
  \<open>totalSupply\<close> is the number of mint calls (\<open>mint\<close> or \<open>mintFor\<close>) of the
  history that committed; no call lowers it; a committed mint returns the former
  \<open>totalSupply\<close> as the new identifier and raises \<open>totalSupply\<close> by one; a
  committed burn leaves \<open>totalSupply\<close> as it was although the burned identifier no
  longer exists.
\<close>

theorem totalSupply_counts_mints:
  "totalSupply (nft_run ts (constructor_NFT deployer defaultBps))
     = mints_performed ts (constructor_NFT deployer defaultBps) \<and>
   totalSupply s \<le> totalSupply (nft_apply t s) \<and>
   (\<forall>tokenId s'. mint accepts sender to tokenUri s = Inr (tokenId, s') \<longrightarrow>
      tokenId = totalSupply s \<and> totalSupply s' = totalSupply s + 1) \<and>
   (\<forall>tokenId s'. mintFor accepts sender to creator tokenUri s = Inr (tokenId, s') \<longrightarrow>
      tokenId = totalSupply s \<and> totalSupply s' = totalSupply s + 1) \<and>
   (\<forall>s'. burn sender burned s = Inr s' \<longrightarrow>
      totalSupply s' = totalSupply s \<and> \<not> exists_token s' burned)"
proof -
  have a: "totalSupply (nft_run ts (constructor_NFT deployer defaultBps))
     = mints_performed ts (constructor_NFT deployer defaultBps)"
    using nft_run_next [of ts "constructor_NFT deployer defaultBps"]
    by (simp add: totalSupply_def constructor_NFT_def)
  have b: "totalSupply s \<le> totalSupply (nft_apply t s)"
    by (simp add: totalSupply_def nft_apply_next)
  have c: "\<forall>tokenId s'. mint accepts sender to tokenUri s = Inr (tokenId, s') \<longrightarrow>
      tokenId = totalSupply s \<and> totalSupply s' = totalSupply s + 1"
    using mint_next by (simp add: totalSupply_def)
  have d: "\<forall>tokenId s'. mintFor accepts sender to creator tokenUri s = Inr (tokenId, s') \<longrightarrow>
      tokenId = totalSupply s \<and> totalSupply s' = totalSupply s + 1"
    using mintFor_next by (simp add: totalSupply_def)
  have e: "\<forall>s'. burn sender burned s = Inr s' \<longrightarrow>
      totalSupply s' = totalSupply s \<and> \<not> exists_token s' burned"
    using burn_next by (simp add: totalSupply_def exists_token_def ownerOf_internal_def)
  show ?thesis using a b c d e by blast
qed

lemma example_nft1_eq:
  "example_nft1 = example_nft0
     \<lparr>nft_nextTokenId := 1,
      nft_creators := (nft_creators example_nft0)(0 := 12),
      nft_owners := (nft_owners example_nft0)(0 := 11),
      nft_balances := (nft_balances example_nft0)(11 := 1),
      nft_tokenURIs := (nft_tokenURIs example_nft0)(0 := ''ipfs://a''),
      nft_royalty := (nft_royalty example_nft0)(0 := \<lparr>ri_receiver = 12, ri_royaltyFraction = 500\<rparr>)\<rparr>"
  by (simp add: example_nft1_def example_nft0_def constructor_NFT_def mintFor_def safeMint_def
      erc721_update_def ownerOf_internal_def
      bindE_def checked_add_def max_uint256_value null_address_def Let_def
      setTokenRoyalty_internal_def feeDenominator_def commit_def everyone_def)

lemma example_nft0_facts:
  "nft_nextTokenId example_nft0 = 0"
  "nft_roles example_nft0 r a = (a = 10)"
  "nft_owners example_nft0 t = null_address"
  "nft_creators example_nft0 t = null_address"
  "nft_defaultRoyaltyBps example_nft0 = 500"
  "nft_operatorApprovals example_nft0 h p = False"
  "nft_tokenApprovals example_nft0 t = null_address"
  "nft_balances example_nft0 a = 0"
  "nft_royalty example_nft0 t = zero_RoyaltyInfo"
  by (simp_all add: example_nft0_def constructor_NFT_def)

lemma example_burn:
  "burn 11 0 example_nft1 =
     Inr (example_nft1\<lparr>nft_tokenApprovals := (nft_tokenApprovals example_nft1)(0 := null_address),
                        nft_balances := (nft_balances example_nft1)(11 := 0),
                        nft_owners := (nft_owners example_nft1)(0 := null_address)\<rparr>)"
  by (simp add: burn_def erc721_update_def ownerOf_internal_def isAuthorized_def bindE_def Let_def
      example_nft1_eq example_nft0_facts null_address_def)

lemma example_nft_history_mints:
  "mints_performed example_nft_history (constructor_NFT 10 500) = 1"
proof -
  have s0: "constructor_NFT 10 500 = example_nft0" by (simp add: example_nft0_def)
  have step1: "nft_apply \<lparr>ntx_accepts = everyone, ntx_sender = 10, ntx_call = MintFor 11 12 ''ipfs://a''\<rparr> example_nft0
                 = example_nft1"
    by (simp add: nft_apply_def example_nft1_def)
  have ok1: "\<not> isl (nft_exec everyone 10 (MintFor 11 12 ''ipfs://a'') example_nft0)"
    by (simp add: mintFor_def safeMint_def erc721_update_def ownerOf_internal_def
      bindE_def checked_add_def max_uint256_value null_address_def Let_def
      setTokenRoyalty_internal_def feeDenominator_def everyone_def example_nft0_facts)
  have bad3: "\<And>s. nft_roles s MINTER_ROLE 13 = False \<Longrightarrow> isl (nft_exec everyone 13 (Mint 13 ''ipfs://b'') s)"
    by (simp add: mint_def bindE_def)
  have roles2: "nft_roles (nft_apply \<lparr>ntx_accepts = everyone, ntx_sender = 11, ntx_call = Burn 0\<rparr> example_nft1)
                  MINTER_ROLE 13 = False"
    by (simp add: nft_apply_def commit_def example_burn) (simp add: example_nft1_eq example_nft0_facts)
  show ?thesis
    unfolding example_nft_history_def s0
    using ok1 bad3 [OF roles2]
    by (simp add: step1 del: nft_exec.simps)
qed

theorem totalSupply_counts_mints_witness:
  "totalSupply (nft_run example_nft_history (constructor_NFT 10 500)) = 1 \<and>
   mints_performed example_nft_history (constructor_NFT 10 500) = 1 \<and>
   exists_token example_nft1 0 \<and>
   totalSupply example_nft1 = 1 \<and>
   \<not> isl (burn 11 0 example_nft1) \<and>
   totalSupply (commit example_nft1 (burn 11 0 example_nft1)) = 1 \<and>
   \<not> exists_token (commit example_nft1 (burn 11 0 example_nft1)) 0"
proof -
  note t = totalSupply_counts_mints [where ts = example_nft_history and deployer = 10
      and defaultBps = 500 and s = example_nft1 and sender = 11 and burned = 0]
  have a: "totalSupply (nft_run example_nft_history (constructor_NFT 10 500)) = 1"
    using t example_nft_history_mints by simp
  have ts1: "totalSupply example_nft1 = 1"
    by (simp add: totalSupply_def example_nft1_eq)
  have ex: "exists_token example_nft1 0"
    by (simp add: exists_token_def ownerOf_internal_def example_nft1_eq null_address_def)
  have b: "totalSupply (commit example_nft1 (burn 11 0 example_nft1)) = totalSupply example_nft1 \<and>
           \<not> exists_token (commit example_nft1 (burn 11 0 example_nft1)) 0"
    using t example_burn by (simp add: commit_def)
  show ?thesis using a b ts1 ex example_nft_history_mints example_burn by simp
qed

theorem setTokenRoyalty_guarded_witness:
  "exists_token example_nft1 0 \<and> tokenTypeExists example_multi2 0 \<and>
   nft_setTokenRoyalty 13 0 13 300 example_nft1 = Inl Unauthorized \<and>
   nft_setTokenRoyalty 12 0 12 1001 example_nft1 = Inl InvalidRate \<and>
   commit example_nft1 (nft_setTokenRoyalty 12 0 12 1001 example_nft1) = example_nft1 \<and>
   \<not> isl (nft_setTokenRoyalty 12 0 14 1000 example_nft1) \<and>
   ri_royaltyFraction (nft_royalty (commit example_nft1 (nft_setTokenRoyalty 12 0 14 1000 example_nft1)) 0) = 1000 \<and>
   me_setTokenRoyalty 13 0 13 300 example_multi2 = Inl Unauthorized \<and>
   me_setTokenRoyalty 10 0 12 1001 example_multi2 = Inl InvalidRate \<and>
   commit example_multi2 (me_setTokenRoyalty 10 0 12 1001 example_multi2) = example_multi2 \<and>
   \<not> isl (me_setTokenRoyalty 12 0 14 1000 example_multi2) \<and>
   ri_royaltyFraction (me_royalty (commit example_multi2 (me_setTokenRoyalty 12 0 14 1000 example_multi2)) 0) = 1000"
proof -
  have ex: "exists_token example_nft1 0"
    by (simp add: exists_token_def ownerOf_internal_def example_nft1_eq null_address_def)
  note ty = example_multi2_facts(2)
  note t = setTokenRoyalty_guarded [OF ex ty]
  have cr: "nft_creators example_nft1 0 = 12" "\<not> nft_roles example_nft1 DEFAULT_ADMIN_ROLE 13"
      "\<not> nft_roles example_nft1 DEFAULT_ADMIN_ROLE 12"
    by (simp_all add: example_nft1_eq example_nft0_facts)
  have mc: "tt_creator (me_tokenTypes example_multi2 0) = 12" "\<not> me_roles example_multi2 DEFAULT_ADMIN_ROLE 13"
      "me_roles example_multi2 DEFAULT_ADMIN_ROLE 10"
    by (simp_all add: example_multi2_eq example_multi1_eq example_multi0_def constructor_NFTMultiEdition_def)
  have n1: "nft_setTokenRoyalty 13 0 13 300 example_nft1 = Inl Unauthorized"
    using t [where sender = 13 and receiver = 13 and royaltyBps = 300] cr by simp
  have n2: "nft_setTokenRoyalty 12 0 12 1001 example_nft1 = Inl InvalidRate"
    using t [where sender = 12 and receiver = 12 and royaltyBps = 1001] cr by simp
  have n3: "commit example_nft1 (nft_setTokenRoyalty 12 0 12 1001 example_nft1) = example_nft1"
    using t [where sender = 12 and receiver = 12 and royaltyBps = 1001] by simp
  have n4: "nft_setTokenRoyalty 12 0 14 1000 example_nft1 =
      Inr (example_nft1\<lparr>nft_royalty := (nft_royalty example_nft1)(0 := \<lparr>ri_receiver = 14, ri_royaltyFraction = 1000\<rparr>)\<rparr>)"
    using ex cr by (simp add: nft_setTokenRoyalty_def exists_token_def bindE_def
        setTokenRoyalty_internal_def feeDenominator_def null_address_def)
  have n5: "ri_royaltyFraction (nft_royalty (commit example_nft1 (nft_setTokenRoyalty 12 0 14 1000 example_nft1)) 0) \<le> 1000"
    using t [where sender = 12 and receiver = 14 and royaltyBps = 1000] n4 by (simp add: commit_def)
  have m1: "me_setTokenRoyalty 13 0 13 300 example_multi2 = Inl Unauthorized"
    using t [where sender = 13 and receiver = 13 and royaltyBps = 300] mc by simp
  have m2: "me_setTokenRoyalty 10 0 12 1001 example_multi2 = Inl InvalidRate"
    using t [where sender = 10 and receiver = 12 and royaltyBps = 1001] mc by simp
  have m3: "commit example_multi2 (me_setTokenRoyalty 10 0 12 1001 example_multi2) = example_multi2"
    using t [where sender = 10 and receiver = 12 and royaltyBps = 1001] by simp
  have m4: "me_setTokenRoyalty 12 0 14 1000 example_multi2 =
      Inr (example_multi2\<lparr>me_royalty := (me_royalty example_multi2)(0 := \<lparr>ri_receiver = 14, ri_royaltyFraction = 1000\<rparr>)\<rparr>)"
    using ty mc by (simp add: me_setTokenRoyalty_def tokenTypeExists_def bindE_def
        setTokenRoyalty_internal_def feeDenominator_def null_address_def)
  show ?thesis using ex ty n1 n2 n3 n4 n5 m1 m2 m3 m4 by (simp add: commit_def)
qed

section \<open>Properties of the settlement engine\<close>

lemma bindE_Inr_iff: "bindE m f = Inr y \<longleftrightarrow> (\<exists>x. m = Inr x \<and> f x = Inr y)"
  by (cases m) (simp_all add: bindE_def)

lemma compute_royalty_Inr:
  assumes "compute_royalty e L = Inr (rr, ra)"
  shows "ra \<le> l_price L * 1000 div 10000 \<and> (rr = l_seller L \<longrightarrow> ra = 0) \<and>
         code_at e (l_tokenContract L) \<noteq> None"
  using assms
  by (auto simp: compute_royalty_def supportsRoyalty_def bindE_Inr_iff external_def
      checked_mul_def Let_def split: if_splits option.splits)

lemma compute_royalty_reported:
  assumes "compute_royalty e L = Inr (rr, ra)"
    and "code_at e (l_tokenContract L) = Some nft"
    and "tv_supportsInterface nft = Some True"
    and "tv_royaltyInfo nft (l_tokenId L) (l_price L) = Some (r, reported)"
  shows "rr = r \<and> ra = (if r = l_seller L then 0 else min reported (l_price L * 1000 div 10000))"
  using assms
  by (auto simp: compute_royalty_def supportsRoyalty_def bindE_Inr_iff external_def
      checked_mul_def Let_def split: if_splits)

lemma compute_royalty_unsupported:
  assumes "compute_royalty e L = Inr (rr, ra)"
    and "code_at e (l_tokenContract L) = Some nft"
    and "tv_supportsInterface nft \<noteq> Some True"
  shows "rr = null_address \<and> ra = 0"
  using assms
  by (auto simp: compute_royalty_def supportsRoyalty_def bindE_Inr_iff external_def
      checked_mul_def Let_def split: if_splits option.splits)

lemma buy_Inr:
  assumes "buy e sender val listingId s = Inr (sale, s')"
  shows "\<not> paused s"
    and "l_status (listings s listingId) = Active"
    and "sender \<noteq> l_seller (listings s listingId)"
    and "val = l_price (listings s listingId)"
    and "s' = s\<lparr>listings := (listings s)(listingId := (listings s listingId)\<lparr>l_status := Sold\<rparr>)\<rparr>"
    and "sale_price sale = l_price (listings s listingId)"
    and "sale_seller sale = l_seller (listings s listingId)"
    and "sale_platformFee sale = l_price (listings s listingId) * platformFeeBps s div 10000"
    and "sale_platformFee sale + sale_royaltyAmount sale + sale_sellerProceeds sale
           = l_price (listings s listingId)"
    and "compute_royalty e (listings s listingId)
           = Inr (sale_royaltyReceiver sale, sale_royaltyAmount sale)"
  using assms
  by (auto simp: buy_def Let_def bindE_Inr_iff checked_mul_def checked_sub_def
      split: if_splits)


lemma listERC721_Inr:
  assumes "listERC721 e sender tokenContract tokenId price s = Inr (listingId, s')"
  shows "listingId = listingIdCounter s"
    and "listingIdCounter s' = listingIdCounter s + 1"
    and "listings s' = (listings s)(listingIdCounter s :=
           \<lparr>l_seller = sender, l_tokenContract = tokenContract, l_tokenId = tokenId, l_amount = 1,
            l_price = price, l_standard = ERC721, l_status = Active,
            l_createdAt = env_timestamp e\<rparr>)"
    and "platformFeeBps s' = platformFeeBps s"
    and "\<not> paused s"
  using assms
  by (auto simp: listERC721_def Let_def bindE_Inr_iff checked_add_def split: if_splits)

lemma listERC1155_Inr:
  assumes "listERC1155 e sender tokenContract tokenId amount price s = Inr (listingId, s')"
  shows "listingId = listingIdCounter s"
    and "listingIdCounter s' = listingIdCounter s + 1"
    and "listings s' = (listings s)(listingIdCounter s :=
           \<lparr>l_seller = sender, l_tokenContract = tokenContract, l_tokenId = tokenId,
            l_amount = amount, l_price = price, l_standard = ERC1155, l_status = Active,
            l_createdAt = env_timestamp e\<rparr>)"
    and "platformFeeBps s' = platformFeeBps s"
    and "\<not> paused s"
  using assms
  by (auto simp: listERC1155_def Let_def bindE_Inr_iff checked_add_def split: if_splits)

lemma cancelListing_Inr:
  assumes "cancelListing sender listingId s = Inr s'"
  shows "l_status (listings s listingId) = Active"
    and "l_seller (listings s listingId) = sender \<or> sender = mp_owner s"
    and "s' = s\<lparr>listings := (listings s)(listingId := (listings s listingId)\<lparr>l_status := Cancelled\<rparr>)\<rparr>"
  using assms by (auto simp: cancelListing_def Let_def split: if_splits)

text \<open>What one committed call does to the fee rate, the counter and the listings.\<close>

lemma market_exec_fee_bound:
  assumes "market_exec e sender val c s = Inr s'" and "platformFeeBps s \<le> 1000"
  shows "platformFeeBps s' \<le> 1000"
proof (cases c)
  case (ListERC721 tokenContract tokenId price)
  then show ?thesis using assms
    by (auto simp: market_exec_def bindE_Inr_iff split: if_splits dest: listERC721_Inr(4))
next
  case (ListERC1155 tokenContract tokenId amount price)
  then show ?thesis using assms
    by (auto simp: market_exec_def bindE_Inr_iff split: if_splits dest: listERC1155_Inr(4))
next
  case (Buy listingId)
  then show ?thesis using assms
    by (auto simp: market_exec_def bindE_Inr_iff split: if_splits dest: buy_Inr(5))
next
  case (CancelListing listingId)
  then show ?thesis using assms
    by (auto simp: market_exec_def split: if_splits dest: cancelListing_Inr(3))
next
  case (SetPlatformFee newFeeBps)
  then show ?thesis using assms
    by (auto simp: market_exec_def setPlatformFee_def split: if_splits)
next
  case (SetFeeRecipient newRecipient)
  then show ?thesis using assms
    by (auto simp: market_exec_def setFeeRecipient_def split: if_splits)
next
  case Pause
  then show ?thesis using assms by (auto simp: market_exec_def pause_def split: if_splits)
next
  case Unpause
  then show ?thesis using assms by (auto simp: market_exec_def unpause_def split: if_splits)
next
  case (TransferOwnership newOwner)
  then show ?thesis using assms
    by (auto simp: market_exec_def transferOwnership_def split: if_splits)
next
  case RenounceOwnership
  then show ?thesis using assms
    by (auto simp: market_exec_def renounceOwnership_def split: if_splits)
qed

lemma market_apply_fee_bound:
  "platformFeeBps s \<le> 1000 \<Longrightarrow> platformFeeBps (market_apply t s) \<le> 1000"
  by (cases "market_exec (mtx_env t) (mtx_sender t) (mtx_value t) (mtx_call t) s")
     (auto simp: market_apply_def commit_def dest: market_exec_fee_bound)

lemma market_run_fee_bound:
  "platformFeeBps s \<le> 1000 \<Longrightarrow> platformFeeBps (market_run ts s) \<le> 1000"
  by (induction ts arbitrary: s) (auto dest: market_apply_fee_bound)

lemma constructor_Marketplace_Inr:
  assumes "constructor_Marketplace deployer recipient = Inr s0"
  shows "platformFeeBps s0 = 250" and "listingIdCounter s0 = 0"
    and "listings s0 = (\<lambda>_. zero_Listing)" and "\<not> paused s0" and "mp_owner s0 = deployer"
    and "feeRecipient s0 = recipient"
  using assms by (auto simp: constructor_Marketplace_def split: if_splits)

text \<open>
  Claim C1. In every state the engine reaches from its deployment, a committed
  \<open>buy\<close> was paid the listing price and splits it exactly: the platform fee is
  \<open>floor (price * platformFeeBps / 10000)\<close>; the royalty is at most
  \<open>floor (price * 1000 / 10000)\<close> whatever the token contract reported (it is the
  reported amount cut down to that cap, and zero when the reported receiver is the
  seller); fee, royalty and seller proceeds add up to the price; and fee and royalty are
  each at most a tenth of the price.
\<close>

theorem buy_split_exact_and_capped:
  assumes "constructor_Marketplace deployer recipient = Inr s0"
    and "s = market_run ts s0"
    and "buy e sender val listingId s = Inr (sale, s')"
  shows
    "val = l_price (listings s listingId) \<and>
     sale_price sale = l_price (listings s listingId) \<and>
     sale_platformFee sale = l_price (listings s listingId) * platformFeeBps s div 10000 \<and>
     sale_royaltyAmount sale \<le> l_price (listings s listingId) * 1000 div 10000 \<and>
     (\<forall>nft receiver reported.
        code_at e (l_tokenContract (listings s listingId)) = Some nft \<and>
        tv_supportsInterface nft = Some True \<and>
        tv_royaltyInfo nft (l_tokenId (listings s listingId)) (l_price (listings s listingId))
          = Some (receiver, reported) \<longrightarrow>
        sale_royaltyReceiver sale = receiver \<and>
        sale_royaltyAmount sale =
          (if receiver = l_seller (listings s listingId) then 0
           else min reported (l_price (listings s listingId) * 1000 div 10000))) \<and>
     (sale_royaltyReceiver sale = l_seller (listings s listingId) \<longrightarrow> sale_royaltyAmount sale = 0) \<and>
     sale_platformFee sale + sale_royaltyAmount sale + sale_sellerProceeds sale
       = l_price (listings s listingId) \<and>
     10 * sale_platformFee sale \<le> l_price (listings s listingId) \<and>
     10 * sale_royaltyAmount sale \<le> l_price (listings s listingId)"
proof -
  let ?L = "listings s listingId"
  note b = buy_Inr [OF assms(3)]
  have fee: "platformFeeBps s \<le> 1000"
    using constructor_Marketplace_Inr(1) [OF assms(1)] market_run_fee_bound [of s0 ts]
    by (simp add: assms(2))
  note r = compute_royalty_Inr [OF b(10)]
  have exact: "\<forall>nft receiver reported.
        code_at e (l_tokenContract ?L) = Some nft \<and>
        tv_supportsInterface nft = Some True \<and>
        tv_royaltyInfo nft (l_tokenId ?L) (l_price ?L) = Some (receiver, reported) \<longrightarrow>
        sale_royaltyReceiver sale = receiver \<and>
        sale_royaltyAmount sale =
          (if receiver = l_seller ?L then 0 else min reported (l_price ?L * 1000 div 10000))"
    using compute_royalty_reported [OF b(10)] by blast
  have "l_price ?L * platformFeeBps s \<le> l_price ?L * 1000"
    using fee by simp
  then have "sale_platformFee sale \<le> l_price ?L * 1000 div 10000"
    unfolding b(8) by (rule div_le_mono)
  then have pf: "10 * sale_platformFee sale \<le> l_price ?L" by simp
  have "sale_royaltyAmount sale \<le> l_price ?L div 10" using r by simp
  then have ra: "10 * sale_royaltyAmount sale \<le> l_price ?L" by arith
  show ?thesis using b(4,6,8,9) r exact pf ra by blast
qed

lemma example_list:
  "listERC1155 example_env 11 50 0 5 10000 example_market0 = Inr (0, example_market1)"
  by (simp add: listERC1155_def example_env_def example_market0_def example_market1_def
      example_listing_def example_token_def code_at_def external_def bindE_def checked_add_def
      max_uint256_value null_address_def Let_def)

lemma example_market1_run: "market_run [example_list_tx] example_market0 = example_market1"
  by (simp add: market_apply_def market_exec_def example_list_tx_def example_list bindE_def commit_def)

lemma example_royalty:
  "compute_royalty example_env example_listing = Inr (12, 1000)"
  by (simp add: compute_royalty_def supportsRoyalty_def example_env_def example_listing_def
      example_token_def code_at_def external_def bindE_def checked_mul_def
      max_uint256_value null_address_def Let_def)

lemma example_transfer:
  "transfer_token example_env example_listing 13 = Inr ()"
  by (simp add: transfer_token_def example_env_def example_listing_def
      example_token_def code_at_def external_def bindE_def null_address_def)

lemma example_payments:
  "transfer_payments example_env 4 example_listing 250 12 1000 8750 = Inr [(4, 250), (12, 1000), (11, 8750)]"
  by (simp add: transfer_payments_def transferETH_def example_env_def example_listing_def
      bindE_def null_address_def)

lemma example_market1_facts:
  "listings example_market1 0 = example_listing"
  "paused example_market1 = False"
  "platformFeeBps example_market1 = 250"
  "feeRecipient example_market1 = 4"
  "listingIdCounter example_market1 = 1"
  "mp_owner example_market1 = 9"
  by (simp_all add: example_market1_def example_market0_def)

lemma example_buy:
  "buy example_env 13 10000 0 example_market1 = Inr (example_sale, example_market2)"
  by (simp add: buy_def example_market1_facts Let_def example_royalty example_transfer
        example_payments bindE_def checked_mul_def checked_sub_def max_uint256_value
        example_sale_def example_market2_def)
     (simp add: example_listing_def)

theorem buy_split_exact_and_capped_witness:
  "constructor_Marketplace 9 4 = Inr example_market0 \<and>
   example_market1 = market_run [example_list_tx] example_market0 \<and>
   buy example_env 13 10000 0 example_market1 = Inr (example_sale, example_market2) \<and>
   tv_royaltyInfo example_token 0 10000 = Some (12, 10000) \<and>
   sale_platformFee example_sale = 10000 * 250 div 10000 \<and>
   sale_royaltyAmount example_sale = min 10000 (10000 * 1000 div 10000) \<and>
   sale_platformFee example_sale + sale_royaltyAmount example_sale + sale_sellerProceeds example_sale = 10000 \<and>
   10 * sale_platformFee example_sale \<le> 10000 \<and> 10 * sale_royaltyAmount example_sale \<le> 10000"
proof -
  have c: "constructor_Marketplace 9 4 = Inr example_market0"
    by (simp add: constructor_Marketplace_def example_market0_def null_address_def)
  have r: "example_market1 = market_run [example_list_tx] example_market0"
    by (simp only: example_market1_run)
  note t = buy_split_exact_and_capped [OF c r example_buy]
  have code: "code_at example_env (l_tokenContract (listings example_market1 0)) = Some example_token"
    by (simp add: example_market1_facts example_listing_def example_env_def code_at_def null_address_def)
  have sup: "tv_supportsInterface example_token = Some True"
    by (simp add: example_token_def)
  have rep: "tv_royaltyInfo example_token (l_tokenId (listings example_market1 0))
               (l_price (listings example_market1 0)) = Some (12, 10000)"
    by (simp add: example_market1_facts example_listing_def example_token_def)
  have exact: "sale_royaltyAmount example_sale =
      (if 12 = l_seller (listings example_market1 0) then 0
       else min 10000 (l_price (listings example_market1 0) * 1000 div 10000))"
    using t code sup rep by blast
  have fee: "sale_platformFee example_sale
      = l_price (listings example_market1 0) * platformFeeBps example_market1 div 10000"
    using t by blast
  have total: "sale_platformFee example_sale + sale_royaltyAmount example_sale
      + sale_sellerProceeds example_sale = l_price (listings example_market1 0)"
    using t by blast
  have b1: "10 * sale_platformFee example_sale \<le> l_price (listings example_market1 0)"
    using t by blast
  have b2: "10 * sale_royaltyAmount example_sale \<le> l_price (listings example_market1 0)"
    using t by blast
  have lp: "l_price (listings example_market1 0) = 10000" "l_seller (listings example_market1 0) = 11"
      "platformFeeBps example_market1 = 250"
    by (simp_all add: example_market1_facts example_listing_def)
  have rep0: "tv_royaltyInfo example_token 0 10000 = Some (12, 10000)"
    by (simp add: example_token_def)
  have exact': "sale_royaltyAmount example_sale = min 10000 (10000 * 1000 div 10000)"
    using exact unfolding lp by simp
  have fee': "sale_platformFee example_sale = 10000 * 250 div 10000"
    using fee unfolding lp by simp
  show ?thesis
    using c r example_buy rep0 exact' fee' total b1 b2 unfolding lp by blast
qed


lemma buy_wrong_payment:
  assumes "\<not> paused s" and "l_status (listings s listingId) = Active"
    and "sender \<noteq> l_seller (listings s listingId)"
    and "val \<noteq> l_price (listings s listingId)"
  shows "buy e sender val listingId s = Inl WrongPayment"
  using assms by (simp add: buy_def Let_def WrongPayment_def)

lemma buy_self_purchase:
  assumes "\<not> paused s" and "l_status (listings s listingId) = Active"
    and "sender = l_seller (listings s listingId)"
  shows "buy e sender val listingId s = Inl SelfPurchase"
  using assms by (simp add: buy_def Let_def SelfPurchase_def)

text \<open>
  Claim C6. While the engine is paused, both listing functions and \<open>buy\<close> fail at
  once with the pause error, whatever their arguments and whatever the token contracts
  would answer; \<open>cancelListing\<close> on an Active listing still commits for the seller
  and for the administrator.
\<close>

theorem paused_blocks_list_and_buy_not_cancel:
  assumes "paused s"
  shows "listERC721 e sender tokenContract tokenId price s = Inl EnforcedPause \<and>
         listERC1155 e sender tokenContract tokenId amount price s = Inl EnforcedPause \<and>
         buy e sender val listingId s = Inl EnforcedPause \<and>
         (l_status (listings s listingId) = Active \<and>
            (sender = l_seller (listings s listingId) \<or> sender = mp_owner s) \<longrightarrow>
          cancelListing sender listingId s =
            Inr (s\<lparr>listings := (listings s)(listingId :=
                   (listings s listingId)\<lparr>l_status := Cancelled\<rparr>)\<rparr>))"
  using assms by (auto simp: listERC721_def listERC1155_def buy_def cancelListing_def Let_def)

theorem paused_blocks_list_and_buy_not_cancel_witness:
  "paused example_paused_market \<and>
   listERC721 example_env 11 50 0 100 example_paused_market = Inl EnforcedPause \<and>
   listERC1155 example_env 11 50 0 3 100 example_paused_market = Inl EnforcedPause \<and>
   buy example_env 13 10000 0 example_paused_market = Inl EnforcedPause \<and>
   l_status (listings example_paused_market 0) = Active \<and>
   l_seller (listings example_paused_market 0) = 11 \<and>
   mp_owner example_paused_market = 9 \<and>
   \<not> isl (cancelListing 11 0 example_paused_market) \<and>
   \<not> isl (cancelListing 9 0 example_paused_market) \<and>
   \<not> isListingActive (commit example_paused_market (cancelListing 11 0 example_paused_market)) 0 \<and>
   \<not> isListingActive (commit example_paused_market (cancelListing 9 0 example_paused_market)) 0"
proof -
  have p: "paused example_paused_market" by (simp add: example_paused_market_def)
  have f: "l_status (listings example_paused_market 0) = Active"
      "l_seller (listings example_paused_market 0) = 11"
      "mp_owner example_paused_market = 9"
    by (simp_all add: example_paused_market_def example_market1_facts example_listing_def)
  note t = paused_blocks_list_and_buy_not_cancel [OF p]
  have c1: "cancelListing 11 0 example_paused_market =
      Inr (example_paused_market\<lparr>listings := (listings example_paused_market)(0 :=
             (listings example_paused_market 0)\<lparr>l_status := Cancelled\<rparr>)\<rparr>)"
    using t [where sender = 11 and listingId = 0] f by simp
  have c9: "cancelListing 9 0 example_paused_market =
      Inr (example_paused_market\<lparr>listings := (listings example_paused_market)(0 :=
             (listings example_paused_market 0)\<lparr>l_status := Cancelled\<rparr>)\<rparr>)"
    using t [where sender = 9 and listingId = 0] f by simp
  have l1: "listERC721 example_env 11 50 0 100 example_paused_market = Inl EnforcedPause"
    using t [where e = example_env and sender = 11 and tokenContract = 50 and tokenId = 0
        and price = 100] by blast
  have l2: "listERC1155 example_env 11 50 0 3 100 example_paused_market = Inl EnforcedPause"
    using t [where e = example_env and sender = 11 and tokenContract = 50 and tokenId = 0
        and amount = 3 and price = 100] by blast
  have b: "buy example_env 13 10000 0 example_paused_market = Inl EnforcedPause"
    using t [where e = example_env and sender = 13 and val = 10000 and listingId = 0] by blast
  show ?thesis
    using p f l1 l2 b by (simp add: c1 c9 commit_def isListingActive_def)
qed

lemma market_exec_counter_mono:
  assumes "market_exec e sender val c s = Inr s'"
  shows "listingIdCounter s \<le> listingIdCounter s'"
proof (cases c)
  case (ListERC721 tokenContract tokenId price)
  then show ?thesis using assms
    by (auto simp: market_exec_def bindE_Inr_iff split: if_splits dest: listERC721_Inr(2))
next
  case (ListERC1155 tokenContract tokenId amount price)
  then show ?thesis using assms
    by (auto simp: market_exec_def bindE_Inr_iff split: if_splits dest: listERC1155_Inr(2))
next
  case (Buy listingId)
  then show ?thesis using assms
    by (auto simp: market_exec_def bindE_Inr_iff split: if_splits dest: buy_Inr(5))
next
  case (CancelListing listingId)
  then show ?thesis using assms
    by (auto simp: market_exec_def split: if_splits dest: cancelListing_Inr(3))
next
  case (SetPlatformFee newFeeBps)
  then show ?thesis using assms
    by (auto simp: market_exec_def setPlatformFee_def split: if_splits)
next
  case (SetFeeRecipient newRecipient)
  then show ?thesis using assms
    by (auto simp: market_exec_def setFeeRecipient_def split: if_splits)
next
  case Pause
  then show ?thesis using assms by (auto simp: market_exec_def pause_def split: if_splits)
next
  case Unpause
  then show ?thesis using assms by (auto simp: market_exec_def unpause_def split: if_splits)
next
  case (TransferOwnership newOwner)
  then show ?thesis using assms
    by (auto simp: market_exec_def transferOwnership_def split: if_splits)
next
  case RenounceOwnership
  then show ?thesis using assms
    by (auto simp: market_exec_def renounceOwnership_def split: if_splits)
qed

text \<open>
  The effect of one committed call on the listing stored under an identifier: \<open>list\<close>
  writes the slot under the old counter, \<open>buy\<close> and \<open>cancelListing\<close> turn an Active
  slot into a Sold or Cancelled one, and nothing else writes a slot.
\<close>

lemma market_exec_listing:
  assumes "market_exec e sender val c s = Inr s'"
  shows "listings s' i = listings s i
         \<or> (i = listingIdCounter s \<and> listingIdCounter s' = listingIdCounter s + 1)
         \<or> (l_status (listings s i) = Active \<and> c = Buy i \<and>
            code_at e (l_tokenContract (listings s i)) \<noteq> None \<and>
            listings s' i = (listings s i)\<lparr>l_status := Sold\<rparr>)
         \<or> (l_status (listings s i) = Active \<and> c = CancelListing i \<and>
            listings s' i = (listings s i)\<lparr>l_status := Cancelled\<rparr>)"
proof (cases c)
  case (ListERC721 tokenContract tokenId price)
  then obtain r where "listERC721 e sender tokenContract tokenId price s = Inr (r, s')"
    using assms by (auto simp: market_exec_def bindE_Inr_iff split: if_splits)
  then show ?thesis using listERC721_Inr(2,3) by fastforce
next
  case (ListERC1155 tokenContract tokenId amount price)
  then obtain r where "listERC1155 e sender tokenContract tokenId amount price s = Inr (r, s')"
    using assms by (auto simp: market_exec_def bindE_Inr_iff split: if_splits)
  then show ?thesis using listERC1155_Inr(2,3) by fastforce
next
  case (Buy listingId)
  then obtain sale where b: "buy e sender val listingId s = Inr (sale, s')"
    using assms by (auto simp: market_exec_def bindE_Inr_iff split: if_splits)
  have "code_at e (l_tokenContract (listings s listingId)) \<noteq> None"
    using compute_royalty_Inr [OF buy_Inr(10) [OF b]] by simp
  then show ?thesis using Buy buy_Inr(2,5) [OF b] by (cases "i = listingId") auto
next
  case (CancelListing listingId)
  then have b: "cancelListing sender listingId s = Inr s'"
    using assms by (auto simp: market_exec_def split: if_splits)
  show ?thesis using CancelListing cancelListing_Inr(1,3) [OF b] by (cases "i = listingId") auto
next
  case (SetPlatformFee newFeeBps)
  then show ?thesis using assms
    by (auto simp: market_exec_def setPlatformFee_def split: if_splits)
next
  case (SetFeeRecipient newRecipient)
  then show ?thesis using assms
    by (auto simp: market_exec_def setFeeRecipient_def split: if_splits)
next
  case Pause
  then show ?thesis using assms by (auto simp: market_exec_def pause_def split: if_splits)
next
  case Unpause
  then show ?thesis using assms by (auto simp: market_exec_def unpause_def split: if_splits)
next
  case (TransferOwnership newOwner)
  then show ?thesis using assms
    by (auto simp: market_exec_def transferOwnership_def split: if_splits)
next
  case RenounceOwnership
  then show ?thesis using assms
    by (auto simp: market_exec_def renounceOwnership_def split: if_splits)
qed

lemma market_apply_cases:
  obtains (reverted) "market_apply t s = s"
  | (committed) s' where "market_exec (mtx_env t) (mtx_sender t) (mtx_value t) (mtx_call t) s = Inr s'"
      and "market_apply t s = s'"
  by (cases "market_exec (mtx_env t) (mtx_sender t) (mtx_value t) (mtx_call t) s")
     (auto simp: market_apply_def commit_def)

lemma market_apply_counter_mono: "listingIdCounter s \<le> listingIdCounter (market_apply t s)"
  by (cases t s rule: market_apply_cases) (auto dest: market_exec_counter_mono)

lemma market_run_counter_mono: "listingIdCounter s \<le> listingIdCounter (market_run ts s)"
proof (induction ts arbitrary: s)
  case Nil
  then show ?case by simp
next
  case (Cons t ts)
  have "listingIdCounter s \<le> listingIdCounter (market_apply t s)"
    by (rule market_apply_counter_mono)
  also have "\<dots> \<le> listingIdCounter (market_run ts (market_apply t s))"
    by (rule Cons.IH)
  finally show ?case by simp
qed

lemma market_apply_terminal:
  assumes "i < listingIdCounter s" and "l_status (listings s i) \<noteq> Active"
  shows "listings (market_apply t s) i = listings s i"
proof (cases t s rule: market_apply_cases)
  case reverted
  then show ?thesis by simp
next
  case (committed s')
  then show ?thesis using market_exec_listing [OF committed(1), of i] assms by auto
qed

lemma market_run_terminal:
  assumes "i < listingIdCounter s" and "l_status (listings s i) \<noteq> Active"
  shows "listings (market_run ts s) i = listings s i"
  using assms
proof (induction ts arbitrary: s)
  case Nil
  then show ?case by simp
next
  case (Cons t ts)
  have same: "listings (market_apply t s) i = listings s i"
    using Cons.prems by (rule market_apply_terminal)
  have "i < listingIdCounter (market_apply t s)"
    using Cons.prems(1) market_apply_counter_mono [of s t] by linarith
  then have "listings (market_run ts (market_apply t s)) i = listings (market_apply t s) i"
    using Cons.IH same Cons.prems(2) by simp
  then show ?case using same by simp
qed

lemma buy_not_active:
  assumes "l_status (listings s listingId) \<noteq> Active"
  shows "buy e sender val listingId s = Inl (if paused s then EnforcedPause else ListingNotActive)"
  using assms by (simp add: buy_def Let_def ListingNotActive_def)

text \<open>
  Claim C3. A listing (an identifier below the counter, that is, one that \<open>list\<close>
  has allocated) whose status is Sold or Cancelled keeps that status through every
  history of calls (list, buy, cancel, fee and recipient changes, pause and unpause,
  changes of administrator). \<open>buy\<close> on a listing that is not Active fails; the
  transaction leaves the engine's state as it was, and in the wired system it changes
  no balance either, since the purchase as a whole fails.
\<close>

theorem listing_status_monotone:
  assumes "listingId < listingIdCounter s" and "l_status (listings s listingId) \<noteq> Active"
  shows "l_status (listings (market_run ts s) listingId) = l_status (listings s listingId) \<and>
         isl (buy e sender val listingId s) \<and>
         market_apply \<lparr>mtx_env = e, mtx_sender = sender, mtx_value = val, mtx_call = Buy listingId\<rparr> s = s \<and>
         (\<forall>c (w::world). w_market w = s \<longrightarrow> isl (world_buy c sender val listingId w))"
proof -
  have a: "l_status (listings (market_run ts s) listingId) = l_status (listings s listingId)"
    using market_run_terminal [OF assms] by simp
  have b: "\<And>e. isl (buy e sender val listingId s)"
    using buy_not_active [OF assms(2)] by simp
  have c: "market_apply \<lparr>mtx_env = e, mtx_sender = sender, mtx_value = val, mtx_call = Buy listingId\<rparr> s = s"
    using buy_not_active [OF assms(2), of e sender val]
    by (simp add: market_apply_def market_exec_def commit_def bindE_def)
  have d: "\<forall>c (w::world). w_market w = s \<longrightarrow> isl (world_buy c sender val listingId w)"
  proof (intro allI impI)
    fix c and w :: world assume "w_market w = s"
    then have "buy (world_env c w) sender val listingId (w_market w)
                 = Inl (if paused s then EnforcedPause else ListingNotActive)"
      using buy_not_active [OF assms(2)] by simp
    then show "isl (world_buy c sender val listingId w)"
      by (simp add: world_buy_def Let_def bindE_def)
  qed
  show ?thesis using a b c d by blast
qed

lemma example_market2_facts:
  "listingIdCounter example_market2 = 1"
  "l_status (listings example_market2 0) = Sold"
  by (simp_all add: example_market2_def example_market1_facts)

theorem listing_status_monotone_witness:
  "0 < listingIdCounter example_market2 \<and>
   l_status (listings example_market2 0) = Sold \<and>
   l_status (listings (market_run example_later_txs example_market2) 0) = Sold \<and>
   isl (buy example_env 13 10000 0 example_market2) \<and>
   market_apply \<lparr>mtx_env = example_env, mtx_sender = 13, mtx_value = 10000, mtx_call = Buy 0\<rparr>
     example_market2 = example_market2"
proof -
  have a: "0 < listingIdCounter example_market2" by (simp add: example_market2_facts)
  have b: "l_status (listings example_market2 0) \<noteq> Active" by (simp add: example_market2_facts)
  note t = listing_status_monotone [OF a b, where ts = example_later_txs and e = example_env
      and sender = 13 and val = 10000]
  show ?thesis using a t by (simp add: example_market2_facts)
qed

lemma zero_Listing_code: "code_at e (l_tokenContract zero_Listing) = None"
  by (simp add: code_at_def zero_Listing_def)

lemma market_apply_unallocated:
  assumes "listingIdCounter (market_apply t s) \<le> i"
    and "listings s i = zero_Listing \<or> listings s i = zero_Listing\<lparr>l_status := Cancelled\<rparr>"
  shows "listings (market_apply t s) i = zero_Listing
         \<or> listings (market_apply t s) i = zero_Listing\<lparr>l_status := Cancelled\<rparr>"
proof (cases t s rule: market_apply_cases)
  case reverted
  then show ?thesis using assms(2) by simp
next
  case (committed s')
  have st: "l_status (listings s i) = Active \<Longrightarrow> listings s i = zero_Listing"
    using assms(2) by auto
  show ?thesis
    using market_exec_listing [OF committed(1), of i] assms committed(2) st
      zero_Listing_code [of "mtx_env t"]
    by auto
qed

lemma market_apply_untouched:
  assumes "listingIdCounter (market_apply t s) \<le> i"
    and "listings s i = zero_Listing"
    and "mtx_call t \<noteq> CancelListing i"
  shows "listings (market_apply t s) i = zero_Listing"
proof (cases t s rule: market_apply_cases)
  case reverted
  then show ?thesis using assms(2) by simp
next
  case (committed s')
  show ?thesis
    using market_exec_listing [OF committed(1), of i] assms committed(2)
      zero_Listing_code [of "mtx_env t"]
    by auto
qed

lemma market_run_unallocated:
  assumes "listingIdCounter (market_run ts s) \<le> i"
    and "listings s i = zero_Listing \<or> listings s i = zero_Listing\<lparr>l_status := Cancelled\<rparr>"
  shows "listings (market_run ts s) i = zero_Listing
         \<or> listings (market_run ts s) i = zero_Listing\<lparr>l_status := Cancelled\<rparr>"
  using assms
proof (induction ts arbitrary: s)
  case Nil
  then show ?case by simp
next
  case (Cons t ts)
  have "listingIdCounter (market_apply t s) \<le> listingIdCounter (market_run ts (market_apply t s))"
    by (rule market_run_counter_mono)
  then have le: "listingIdCounter (market_apply t s) \<le> i"
    using Cons.prems(1) by simp
  have "listings (market_apply t s) i = zero_Listing
         \<or> listings (market_apply t s) i = zero_Listing\<lparr>l_status := Cancelled\<rparr>"
    using le Cons.prems(2) by (rule market_apply_unallocated)
  then show ?case using Cons.IH [of "market_apply t s"] Cons.prems(1) by simp
qed

lemma market_run_untouched:
  assumes "listingIdCounter (market_run ts s) \<le> i"
    and "listings s i = zero_Listing"
    and "never_cancelled i ts"
  shows "listings (market_run ts s) i = zero_Listing"
  using assms
proof (induction ts arbitrary: s)
  case Nil
  then show ?case by simp
next
  case (Cons t ts)
  have "listingIdCounter (market_apply t s) \<le> listingIdCounter (market_run ts (market_apply t s))"
    by (rule market_run_counter_mono)
  then have le: "listingIdCounter (market_apply t s) \<le> i"
    using Cons.prems(1) by simp
  have "mtx_call t \<noteq> CancelListing i" and rest: "never_cancelled i ts"
    using Cons.prems(3) by (simp_all add: never_cancelled_def)
  then have "listings (market_apply t s) i = zero_Listing"
    using le Cons.prems(2) market_apply_untouched by blast
  then show ?case using Cons.IH [of "market_apply t s"] Cons.prems(1) rest by simp
qed

text \<open>
  Claim C9, amended. In every state the engine reaches from its deployment, for an
  identifier that was never allocated, \<open>getListing\<close> returns without failing a record
  whose fields other than the status are zero (null seller, price 0); the status is
  Active, so that \<open>isListingActive\<close> is true, unless \<open>cancelListing\<close> was called on
  that identifier, in which case the status may be Cancelled and \<open>isListingActive\<close>
  false. In particular \<open>isListingActive\<close> is true when the history holds no
  \<open>cancelListing\<close> call on the identifier.
\<close>

theorem unallocated_listing_zero_or_cancelled:
  assumes "constructor_Marketplace deployer recipient = Inr s0"
    and "s = market_run ts s0"
    and "totalListings s \<le> listingId"
  shows "(getListing s listingId = zero_Listing
            \<or> getListing s listingId = zero_Listing\<lparr>l_status := Cancelled\<rparr>) \<and>
         l_seller (getListing s listingId) = null_address \<and>
         l_price (getListing s listingId) = 0 \<and>
         (isListingActive s listingId \<longleftrightarrow> getListing s listingId = zero_Listing) \<and>
         (never_cancelled listingId ts \<longrightarrow>
            isListingActive s listingId \<and> getListing s listingId = zero_Listing)"
proof -
  have z: "listings s0 listingId = zero_Listing"
    using constructor_Marketplace_Inr(3) [OF assms(1)] by simp
  have le: "listingIdCounter (market_run ts s0) \<le> listingId"
    using assms(2,3) by (simp add: totalListings_def)
  have a: "listings s listingId = zero_Listing
            \<or> listings s listingId = zero_Listing\<lparr>l_status := Cancelled\<rparr>"
    using market_run_unallocated [OF le] z assms(2) by simp
  have b: "never_cancelled listingId ts \<longrightarrow> listings s listingId = zero_Listing"
    using market_run_untouched [OF le z] assms(2) by simp
  have za: "l_status zero_Listing = Active" "l_seller zero_Listing = null_address"
      "l_price zero_Listing = 0"
    by (simp_all add: zero_Listing_def)
  show ?thesis
    using a b za by (auto simp: getListing_def isListingActive_def)
qed

lemma example_precancel:
  "market_apply example_precancel_tx example_market0
     = example_market0\<lparr>listings := (listings example_market0)(7 := zero_Listing\<lparr>l_status := Cancelled\<rparr>)\<rparr>"
  by (simp add: market_apply_def market_exec_def example_precancel_tx_def cancelListing_def
      example_market0_def zero_Listing_def commit_def Let_def)

lemma example_constructor: "constructor_Marketplace 9 4 = Inr example_market0"
  by (simp add: constructor_Marketplace_def example_market0_def null_address_def)

text \<open>
  Claim C9 as stated fails after one administrative call. \<open>cancelListing\<close> checks
  the status and the caller but not that the identifier was ever allocated, and the
  administrator passes the caller check for any slot. On a freshly deployed engine the
  administrator 9 cancels identifier 7: no listing has been allocated, yet
  \<open>isListingActive 7\<close> is false and \<open>getListing 7\<close> is not the zero record.
\<close>

theorem unallocated_listing_counterexample:
  "constructor_Marketplace 9 4 = Inr example_market0 \<and>
   mtx_sender example_precancel_tx = mp_owner example_market0 \<and>
   totalListings (market_run [example_precancel_tx] example_market0) = 0 \<and>
   totalListings (market_run [example_precancel_tx] example_market0) \<le> 7 \<and>
   \<not> isListingActive (market_run [example_precancel_tx] example_market0) 7 \<and>
   getListing (market_run [example_precancel_tx] example_market0) 7 \<noteq> zero_Listing"
  by (simp add: example_constructor example_precancel totalListings_def isListingActive_def
      getListing_def)
     (simp add: example_market0_def example_precancel_tx_def zero_Listing_def)

theorem unallocated_listing_zero_or_cancelled_witness:
  "constructor_Marketplace 9 4 = Inr example_market0 \<and>
   totalListings (market_run [example_precancel_tx] example_market0) \<le> 7 \<and>
   totalListings (market_run [example_precancel_tx] example_market0) \<le> 8 \<and>
   never_cancelled 8 [example_precancel_tx] \<and>
   getListing (market_run [example_precancel_tx] example_market0) 7
     = zero_Listing\<lparr>l_status := Cancelled\<rparr> \<and>
   l_seller (getListing (market_run [example_precancel_tx] example_market0) 7) = null_address \<and>
   l_price (getListing (market_run [example_precancel_tx] example_market0) 7) = 0 \<and>
   isListingActive (market_run [example_precancel_tx] example_market0) 8 \<and>
   getListing (market_run [example_precancel_tx] example_market0) 8 = zero_Listing"
proof -
  have le7: "totalListings (market_run [example_precancel_tx] example_market0) \<le> 7"
    and le8: "totalListings (market_run [example_precancel_tx] example_market0) \<le> 8"
    by (simp_all add: example_precancel totalListings_def) (simp_all add: example_market0_def)
  have nc: "never_cancelled 8 [example_precancel_tx]"
    by (simp add: never_cancelled_def example_precancel_tx_def)
  note t7 = unallocated_listing_zero_or_cancelled [OF example_constructor refl le7]
  note t8 = unallocated_listing_zero_or_cancelled [OF example_constructor refl le8]
  have g7: "getListing (market_run [example_precancel_tx] example_market0) 7
     = zero_Listing\<lparr>l_status := Cancelled\<rparr>"
    by (simp add: example_precancel getListing_def)
  have a8: "isListingActive (market_run [example_precancel_tx] example_market0) 8 \<and>
     getListing (market_run [example_precancel_tx] example_market0) 8 = zero_Listing"
    using t8 nc by blast
  have s7: "l_seller (getListing (market_run [example_precancel_tx] example_market0) 7) = null_address"
     "l_price (getListing (market_run [example_precancel_tx] example_market0) 7) = 0"
    using t7 by blast+
  show ?thesis using example_constructor le7 le8 nc g7 a8 s7 by blast
qed

section \<open>The mint-for-other sale, end to end\<close>

lemma mintFor_succeeds:
  assumes "nft_roles n MINTER_ROLE minter"
    and "creator \<noteq> null_address" and "holder \<noteq> null_address" and "accepts holder"
    and "nft_nextTokenId n < MAX_UINT256"
    and "nft_owners n (nft_nextTokenId n) = null_address"
    and "nft_defaultRoyaltyBps n \<le> 10000"
  shows "\<exists>n1. mintFor accepts minter holder creator tokenUri n = Inr (nft_nextTokenId n, n1) \<and>
           nft_owners n1 (nft_nextTokenId n) = holder \<and>
           nft_creators n1 (nft_nextTokenId n) = creator \<and>
           nft_royalty n1 (nft_nextTokenId n)
             = \<lparr>ri_receiver = creator, ri_royaltyFraction = nft_defaultRoyaltyBps n\<rparr> \<and>
           nft_tokenApprovals n1 = nft_tokenApprovals n \<and>
           nft_operatorApprovals n1 = nft_operatorApprovals n"
  using assms
  by (simp add: mintFor_def safeMint_def erc721_update_def ownerOf_internal_def bindE_def
      checked_add_def Let_def setTokenRoyalty_internal_def feeDenominator_def)

lemma approve_by_owner:
  assumes "nft_owners n tokenId = holder" and "holder \<noteq> null_address"
  shows "approve holder operator tokenId n
           = Inr (n\<lparr>nft_tokenApprovals := (nft_tokenApprovals n)(tokenId := operator)\<rparr>)"
  using assms by (simp add: approve_def ownerOf_def ownerOf_internal_def bindE_def)

lemma safeTransferFrom_approved:
  assumes "nft_owners n tokenId = holder" and "holder \<noteq> null_address"
    and "nft_tokenApprovals n tokenId = operator" and "operator \<noteq> null_address"
    and "to \<noteq> null_address" and "accepts to"
  shows "\<exists>n'. safeTransferFrom accepts operator holder to tokenId n = Inr n' \<and>
           ownerOf n' tokenId = Inr to"
  using assms
  by (simp add: safeTransferFrom_def erc721_update_def ownerOf_internal_def isAuthorized_def
      ownerOf_def bindE_def Let_def)

lemma listERC721_succeeds:
  assumes "\<not> paused s" and "0 < price"
    and "code_at e tokenContract = Some nft"
    and "tv_ownerOf nft tokenId = Some sender"
    and "tv_isApprovedForAll nft sender (env_this e) = Some forAll"
    and "forAll \<or> tv_getApproved nft tokenId = Some (env_this e)"
    and "listingIdCounter s < MAX_UINT256"
  shows "listERC721 e sender tokenContract tokenId price s =
           Inr (listingIdCounter s,
                s\<lparr>listingIdCounter := listingIdCounter s + 1,
                  listings := (listings s)(listingIdCounter s :=
                    \<lparr>l_seller = sender, l_tokenContract = tokenContract, l_tokenId = tokenId,
                     l_amount = 1, l_price = price, l_standard = ERC721, l_status = Active,
                     l_createdAt = env_timestamp e\<rparr>),
                  sellerListings := (sellerListings s)(sender :=
                    sellerListings s sender @ [listingIdCounter s])\<rparr>)"
  using assms
  by (auto simp: listERC721_def external_def bindE_def checked_add_def Let_def)

lemma transfer_payments_all:
  assumes "env_payable e recipient" and "env_payable e royaltyReceiver"
    and "env_payable e (l_seller L)"
    and "0 < platformFee" and "0 < royaltyAmount" and "royaltyReceiver \<noteq> null_address"
  shows "transfer_payments e recipient L platformFee royaltyReceiver royaltyAmount sellerProceeds
           = Inr [(recipient, platformFee), (royaltyReceiver, royaltyAmount), (l_seller L, sellerProceeds)]"
  using assms by (simp add: transfer_payments_def transferETH_def bindE_def)

lemma buy_succeeds:
  assumes "\<not> paused s" and "l_status (listings s listingId) = Active"
    and "sender \<noteq> l_seller (listings s listingId)"
    and "l_price (listings s listingId) * platformFeeBps s \<le> MAX_UINT256"
    and "compute_royalty e (listings s listingId) = Inr (royaltyReceiver, royaltyAmount)"
    and "l_price (listings s listingId) * platformFeeBps s div 10000 + royaltyAmount
           \<le> l_price (listings s listingId)"
    and "transfer_token e (listings s listingId) sender = Inr ()"
    and "transfer_payments e (feeRecipient s) (listings s listingId)
           (l_price (listings s listingId) * platformFeeBps s div 10000) royaltyReceiver royaltyAmount
           (l_price (listings s listingId) - l_price (listings s listingId) * platformFeeBps s div 10000
              - royaltyAmount) = Inr paid"
  shows "buy e sender (l_price (listings s listingId)) listingId s =
           Inr (\<lparr>sale_listingId = listingId, sale_buyer = sender,
                 sale_seller = l_seller (listings s listingId),
                 sale_price = l_price (listings s listingId),
                 sale_platformFee = l_price (listings s listingId) * platformFeeBps s div 10000,
                 sale_royaltyAmount = royaltyAmount, sale_royaltyReceiver = royaltyReceiver,
                 sale_sellerProceeds = l_price (listings s listingId)
                    - l_price (listings s listingId) * platformFeeBps s div 10000 - royaltyAmount,
                 sale_payments = paid\<rparr>,
                s\<lparr>listings := (listings s)(listingId := (listings s listingId)\<lparr>l_status := Sold\<rparr>)\<rparr>)"
  using assms
  by (simp add: buy_def Let_def bindE_def checked_mul_def checked_sub_def)

text \<open>
  Claim C8. The ledger's default royalty is 500 basis points and the engine's fee 250.
  A minter mints a token to \<open>holder\<close> with a different \<open>creator\<close> through
  \<open>mintFor\<close>; the holder approves the engine, lists the token at
  \<open>1000000000000000000\<close>, and a buyer other than the holder pays exactly that. Then
  the purchase commits; the engine pays \<open>25000000000000000\<close> to the fee recipient,
  \<open>50000000000000000\<close> to the creator and the remaining \<open>925000000000000000\<close>
  to the holder; the buyer owns the token; the listing is Sold; and when the five
  addresses involved are distinct their balances change by exactly these amounts.
\<close>

theorem mint_for_other_payout:
  assumes minter: "nft_roles (w_nft w) MINTER_ROLE minter"
    and royalty_rate: "nft_defaultRoyaltyBps (w_nft w) = 500"
    and fee_rate: "platformFeeBps (w_market w) = 250"
    and fresh_id: "nft_nextTokenId (w_nft w) < MAX_UINT256"
                  "nft_owners (w_nft w) (nft_nextTokenId (w_nft w)) = null_address"
    and engine: "\<not> paused (w_market w)" "listingIdCounter (w_market w) < MAX_UINT256"
                "feeRecipient (w_market w) = treasury"
    and parties: "creator \<noteq> null_address" "holder \<noteq> null_address" "buyer \<noteq> null_address"
                 "creator \<noteq> holder" "buyer \<noteq> holder"
    and contracts: "ctx_nft c \<noteq> null_address" "ctx_market c \<noteq> null_address"
    and acknowledgements: "ctx_accepts c holder" "ctx_accepts c buyer"
    and payable: "ctx_payable c treasury" "ctx_payable c creator" "ctx_payable c holder"
    and price: "price = 1000000000000000000"
    and funds: "price \<le> w_eth w buyer"
  shows "\<exists>sale w'.
           mint_for_other_sale c minter holder creator tokenUri buyer price w = Inr (sale, w') \<and>
           sale_price sale = 1000000000000000000 \<and>
           sale_royaltyReceiver sale = creator \<and>
           sale_royaltyAmount sale = 50000000000000000 \<and>
           sale_platformFee sale = 25000000000000000 \<and>
           sale_sellerProceeds sale = 925000000000000000 \<and>
           sale_payments sale = [(treasury, 25000000000000000), (creator, 50000000000000000),
                                 (holder, 925000000000000000)] \<and>
           ownerOf (w_nft w') (nft_nextTokenId (w_nft w)) = Inr buyer \<and>
           l_status (listings (w_market w') (listingIdCounter (w_market w))) = Sold \<and>
           (distinct [treasury, creator, holder, buyer, ctx_market c] \<longrightarrow>
              w_eth w' creator = w_eth w creator + 50000000000000000 \<and>
              w_eth w' treasury = w_eth w treasury + 25000000000000000 \<and>
              w_eth w' holder = w_eth w holder + 925000000000000000 \<and>
              w_eth w' buyer = w_eth w buyer - 1000000000000000000 \<and>
              w_eth w' (ctx_market c) = w_eth w (ctx_market c))"
proof -
  define n where "n = w_nft w"
  define m where "m = w_market w"
  define t where "t = nft_nextTokenId n"
  define l where "l = listingIdCounter m"
  have bps: "nft_defaultRoyaltyBps n \<le> 10000" using royalty_rate by (simp add: n_def)
  obtain n1 where n1: "mintFor (ctx_accepts c) minter holder creator tokenUri n = Inr (t, n1)"
      and n1_owner: "nft_owners n1 t = holder"
      and n1_royalty: "nft_royalty n1 t = \<lparr>ri_receiver = creator, ri_royaltyFraction = 500\<rparr>"
    using mintFor_succeeds [of n minter creator holder "ctx_accepts c" tokenUri]
      minter fresh_id parties(1,2) acknowledgements(1) bps royalty_rate
    unfolding n_def t_def by auto
  define n2 where "n2 = n1\<lparr>nft_tokenApprovals := (nft_tokenApprovals n1)(t := ctx_market c)\<rparr>"
  have n2: "approve holder (ctx_market c) t n1 = Inr n2"
    unfolding n2_def using n1_owner parties(2) by (rule approve_by_owner)
  have n2_facts: "nft_owners n2 t = holder" "nft_tokenApprovals n2 t = ctx_market c"
      "nft_royalty n2 t = \<lparr>ri_receiver = creator, ri_royaltyFraction = 500\<rparr>"
    by (simp_all add: n2_def n1_owner n1_royalty)
  define w2 where "w2 = w\<lparr>w_nft := n2\<rparr>"
  define e where "e = world_env c w2"
  define view where "view = nft_view (ctx_accepts c) n2"
  have e_facts: "env_this e = ctx_market c" "code_at e (ctx_nft c) = Some view"
      "env_payable e = ctx_payable c" "env_timestamp e = ctx_timestamp c"
    using contracts(1) by (simp_all add: e_def world_env_def w2_def view_def code_at_def)
  have view_owner: "tv_ownerOf view t = Some holder"
    using n2_facts(1) parties(2)
    by (simp add: view_def nft_view_def answer_def ownerOf_def ownerOf_internal_def)
  have view_all: "tv_isApprovedForAll view holder (ctx_market c)
                    = Some (isApprovedForAll n2 holder (ctx_market c))"
    by (simp add: view_def nft_view_def)
  have view_approved: "tv_getApproved view t = Some (ctx_market c)"
    using n2_facts(1,2) parties(2)
    by (simp add: view_def nft_view_def answer_def getApproved_def ownerOf_internal_def)
  have view_supports: "tv_supportsInterface view = Some True"
    by (simp add: view_def nft_view_def)
  have view_royalty: "tv_royaltyInfo view t price = Some (creator, 50000000000000000)"
    using n2_facts(3) parties(1)
    by (simp add: view_def nft_view_def answer_def royaltyInfo_def bindE_def checked_mul_def
        max_uint256_value feeDenominator_def price Let_def)
  obtain n3 where n3: "safeTransferFrom (ctx_accepts c) (ctx_market c) holder buyer t n2 = Inr n3"
      and n3_owner: "ownerOf n3 t = Inr buyer"
    using safeTransferFrom_approved [where accepts = "ctx_accepts c" and n = n2 and tokenId = t
        and holder = holder and operator = "ctx_market c" and to = buyer]
      n2_facts(1,2) parties(2,3) contracts(2) acknowledgements(2) by blast
  have view_transfer: "tv_safeTransferFrom721 view (ctx_market c) holder buyer t"
    by (simp add: view_def nft_view_def n3)
  define L where "L = \<lparr>l_seller = holder, l_tokenContract = ctx_nft c, l_tokenId = t, l_amount = 1,
      l_price = price, l_standard = ERC721, l_status = Active, l_createdAt = ctx_timestamp c\<rparr>"
  define m1 where "m1 = m\<lparr>listingIdCounter := l + 1, listings := (listings m)(l := L),
      sellerListings := (sellerListings m)(holder := sellerListings m holder @ [l])\<rparr>"
  have m1: "listERC721 e holder (ctx_nft c) t price m = Inr (l, m1)"
    using listERC721_succeeds [of m price e "ctx_nft c" view t holder
        "isApprovedForAll n2 holder (ctx_market c)"]
      engine(1,2) e_facts view_owner view_all view_approved
    by (simp add: m_def l_def m1_def L_def price)
  have m1_facts: "listings m1 l = L" "\<not> paused m1" "platformFeeBps m1 = 250"
      "feeRecipient m1 = treasury"
    using engine(1,3) fee_rate by (simp_all add: m1_def m_def)
  define w3 where "w3 = w2\<lparr>w_market := m1\<rparr>"
  have w3_facts: "w_market w3 = m1" "w_nft w3 = n2" "w_eth w3 = w_eth w" "world_env c w3 = e"
    by (simp_all add: w3_def w2_def e_def world_env_def cong: if_cong)
  have L_facts: "l_seller L = holder" "l_tokenContract L = ctx_nft c" "l_tokenId L = t"
      "l_price L = price" "l_standard L = ERC721" "l_status L = Active"
    by (simp_all add: L_def)
  have view_royalty': "tv_royaltyInfo view t 1000000000000000000 = Some (creator, 50000000000000000)"
    using view_royalty by (simp add: price)
  have roy: "compute_royalty e L = Inr (creator, 50000000000000000)"
    using parties(4)
    by (simp add: compute_royalty_def supportsRoyalty_def L_facts e_facts external_def bindE_def
        view_supports view_royalty' checked_mul_def max_uint256_value price Let_def)
  have tok: "transfer_token e L buyer = Inr ()"
    using view_transfer
    by (simp add: transfer_token_def L_facts e_facts external_def bindE_def)
  define paid where "paid = [(treasury, 25000000000000000::nat), (creator, 50000000000000000),
      (holder, 925000000000000000)]"
  have pay: "transfer_payments e treasury L 25000000000000000 creator 50000000000000000
               925000000000000000 = Inr paid"
    unfolding paid_def
    using transfer_payments_all [of e treasury creator L 25000000000000000 50000000000000000
        925000000000000000] payable parties(1)
    by (simp add: e_facts L_facts)
  define sale where "sale = \<lparr>sale_listingId = l, sale_buyer = buyer, sale_seller = holder,
      sale_price = price, sale_platformFee = 25000000000000000,
      sale_royaltyAmount = 50000000000000000, sale_royaltyReceiver = creator,
      sale_sellerProceeds = 925000000000000000, sale_payments = paid\<rparr>"
  define m2 where "m2 = m1\<lparr>listings := (listings m1)(l := L\<lparr>l_status := Sold\<rparr>)\<rparr>"
  have b: "buy e buyer price l m1 = Inr (sale, m2)"
    using buy_succeeds [of m1 l buyer e creator 50000000000000000 paid]
      m1_facts L_facts roy tok pay parties(5)
    by (simp add: price max_uint256_value sale_def m2_def)
  define eth' where "eth' = pay_out (ctx_market c) paid (move_eth buyer (ctx_market c) price (w_eth w))"
  define w' where "w' = \<lparr>w_nft = n3, w_market = m2, w_eth = eth'\<rparr>"
  have wb: "world_buy c buyer price l w3 = Inr (sale, w')"
    using funds b n3
    by (simp add: world_buy_def w3_facts m1_facts L_facts Let_def bindE_def sale_def w'_def eth'_def)
  have run: "mint_for_other_sale c minter holder creator tokenUri buyer price w = Inr (sale, w')"
    using n1 n2 m1 wb
    by (simp add: mint_for_other_sale_def bindE_def Let_def n_def [symmetric] w2_def [symmetric]
        e_def [symmetric] w3_def [symmetric] m_def [symmetric])
  have balances: "distinct [treasury, creator, holder, buyer, ctx_market c] \<longrightarrow>
              w_eth w' creator = w_eth w creator + 50000000000000000 \<and>
              w_eth w' treasury = w_eth w treasury + 25000000000000000 \<and>
              w_eth w' holder = w_eth w holder + 925000000000000000 \<and>
              w_eth w' buyer = w_eth w buyer - 1000000000000000000 \<and>
              w_eth w' (ctx_market c) = w_eth w (ctx_market c)"
    by (auto simp: w'_def eth'_def paid_def move_eth_def Let_def price)
  have sold: "l_status (listings (w_market w') l) = Sold"
    by (simp add: w'_def m2_def)
  have owner: "ownerOf (w_nft w') t = Inr buyer"
    by (simp add: w'_def n3_owner)
  have figures: "sale_price sale = 1000000000000000000" "sale_royaltyReceiver sale = creator"
      "sale_royaltyAmount sale = 50000000000000000" "sale_platformFee sale = 25000000000000000"
      "sale_sellerProceeds sale = 925000000000000000"
      "sale_payments sale = [(treasury, 25000000000000000), (creator, 50000000000000000),
                             (holder, 925000000000000000)]"
    by (simp_all add: sale_def paid_def price)
  show ?thesis
    using run figures owner sold balances unfolding t_def n_def l_def m_def by blast
qed

theorem mint_for_other_payout_witness:
  "nft_roles (w_nft example_world) MINTER_ROLE 10 \<and>
   nft_defaultRoyaltyBps (w_nft example_world) = 500 \<and>
   platformFeeBps (w_market example_world) = 250 \<and>
   feeRecipient (w_market example_world) = 4 \<and>
   (1000000000000000000::nat) \<le> w_eth example_world 13 \<and>
   distinct [4, 12, 11, 13, ctx_market example_ctx] \<and>
   (\<exists>sale w'.
      mint_for_other_sale example_ctx 10 11 12 ''ipfs://a'' 13 1000000000000000000 example_world
        = Inr (sale, w') \<and>
      sale_payments sale = [(4, 25000000000000000), (12, 50000000000000000),
                            (11, 925000000000000000)] \<and>
      ownerOf (w_nft w') 0 = Inr 13 \<and>
      w_eth w' 12 = 50000000000000000 \<and>
      w_eth w' 4 = 25000000000000000 \<and>
      w_eth w' 11 = 925000000000000000 \<and>
      w_eth w' 13 = 1000000000000000000 \<and>
      w_eth w' 99 = 0)"
proof -
  have n: "nft_roles (w_nft example_world) MINTER_ROLE 10"
      "nft_defaultRoyaltyBps (w_nft example_world) = 500"
      "nft_nextTokenId (w_nft example_world) < MAX_UINT256"
      "nft_owners (w_nft example_world) (nft_nextTokenId (w_nft example_world)) = null_address"
      "nft_nextTokenId (w_nft example_world) = 0"
    by (simp_all add: example_world_def constructor_NFT_def max_uint256_value)
  have m: "platformFeeBps (w_market example_world) = 250"
      "\<not> paused (w_market example_world)"
      "listingIdCounter (w_market example_world) < MAX_UINT256"
      "feeRecipient (w_market example_world) = 4"
    by (simp_all add: example_world_def example_market0_def max_uint256_value)
  have parties: "(12::nat) \<noteq> null_address" "(11::nat) \<noteq> null_address" "(13::nat) \<noteq> null_address"
      "(12::nat) \<noteq> 11" "(13::nat) \<noteq> 11"
    by (simp_all add: null_address_def)
  have contracts: "ctx_nft example_ctx \<noteq> null_address" "ctx_market example_ctx \<noteq> null_address"
      "ctx_market example_ctx = 99"
    by (simp_all add: example_ctx_def null_address_def)
  have acks: "ctx_accepts example_ctx 11" "ctx_accepts example_ctx 13"
      "ctx_payable example_ctx 4" "ctx_payable example_ctx 12" "ctx_payable example_ctx 11"
    by (simp_all add: example_ctx_def everyone_def)
  have funds: "(1000000000000000000::nat) \<le> w_eth example_world 13"
    by (simp add: example_world_def)
  have eth0: "w_eth example_world 12 = 0" "w_eth example_world 4 = 0" "w_eth example_world 11 = 0"
      "w_eth example_world 13 = 2000000000000000000" "w_eth example_world 99 = 0"
    by (simp_all add: example_world_def)
  have d: "distinct [4, 12, 11, 13, ctx_market example_ctx]"
    by (simp add: contracts(3))
  note t = mint_for_other_payout [where w = example_world and c = example_ctx and minter = 10
      and holder = 11 and creator = 12 and buyer = 13 and treasury = 4
      and price = 1000000000000000000 and tokenUri = "''ipfs://a''",
      OF n(1) n(2) m(1) n(3) n(4) m(2) m(3) m(4) parties contracts(1,2) acks(1,2,3,4,5) refl funds]
  then obtain sale w' where r:
      "mint_for_other_sale example_ctx 10 11 12 ''ipfs://a'' 13 1000000000000000000 example_world
         = Inr (sale, w')"
      "sale_payments sale = [(4, 25000000000000000), (12, 50000000000000000),
                            (11, 925000000000000000)]"
      "ownerOf (w_nft w') (nft_nextTokenId (w_nft example_world)) = Inr 13"
      "distinct [4, 12, 11, 13, ctx_market example_ctx] \<longrightarrow>
              w_eth w' 12 = w_eth example_world 12 + 50000000000000000 \<and>
              w_eth w' 4 = w_eth example_world 4 + 25000000000000000 \<and>
              w_eth w' 11 = w_eth example_world 11 + 925000000000000000 \<and>
              w_eth w' 13 = w_eth example_world 13 - 1000000000000000000 \<and>
              w_eth w' (ctx_market example_ctx) = w_eth example_world (ctx_market example_ctx)"
    by blast
  have bal: "w_eth w' 12 = 50000000000000000" "w_eth w' 4 = 25000000000000000"
      "w_eth w' 11 = 925000000000000000" "w_eth w' 13 = 1000000000000000000" "w_eth w' 99 = 0"
    using r(4) d by (simp_all add: eth0 contracts(3))
  have own: "ownerOf (w_nft w') 0 = Inr 13" using r(3) by (simp add: n(5))
  show ?thesis
    using n(1,2) m(1,4) funds d r(1,2) own bal by blast
qed

end
